theory Spec2Isabelle
  imports Complex_Main "HOL-Library.AList" "HOL-Library.Multiset"
begin

section \<open>Python values, exceptions and the statistics engine\<close>

text \<open>
  The exceptions the modelled code raises or lets through. \<open>StatementError\<close> stands for
  any \<open>Exception\<close> raised by a timed statement, \<open>OtherError\<close> for any other exception an
  aggregation function may raise.
\<close>

datatype exn = TypeError | ValueError | KeyError | StatementError | KeyboardInterrupt
  | OtherError string

text \<open>
  The Python values that cross the interfaces of the module. Floats are modelled as reals
  (no rounding, no \<open>nan\<close>, no \<open>inf\<close>); \<open>PObj\<close> is any object that is neither \<open>None\<close>, a
  number nor a string.
\<close>

datatype pyval = PNone | PBool bool | PInt int | PFloat real | PStr string | PObj

text \<open>What calling a Python function does: it returns a value or raises.\<close>

datatype outcome = Returns pyval | Raises exn

text \<open>An aggregation function receives the tuple of durations.\<close>

type_synonym statfun = "real list \<Rightarrow> outcome"

text \<open>\<open>isinstance(value, (float, int))\<close>; \<open>bool\<close> is a subclass of \<open>int\<close>.\<close>

fun isinstance_float_int :: "pyval \<Rightarrow> bool" where
  "isinstance_float_int (PFloat x) = True"
| "isinstance_float_int (PInt i) = True"
| "isinstance_float_int (PBool b) = True"
| "isinstance_float_int v = False"

text \<open>
  \<open>_stat_call(func, time)\<close>: the call and the type test sit inside \<open>try\<close>; the bare
  \<open>except: pass\<close> catches every exception, and falling off the end returns \<open>None\<close>.
  \<open>Inl\<close> would be an exception leaving the function.
\<close>

definition stat_call :: "statfun \<Rightarrow> real list \<Rightarrow> exn + pyval" where
  "stat_call func time =
     (case func time of
        Returns v \<Rightarrow> if isinstance_float_int v then Inr v else Inr PNone
      | Raises e \<Rightarrow> Inr PNone)"


section \<open>Statistic names\<close>

text \<open>
  Strings are lists of code points below 256. \<open>str.isidentifier\<close> accepts a
  non-empty string whose first character is in XID_Start or is an underscore and whose
  other characters are in XID_Continue; below 256 these are the following.
\<close>

definition xid_start :: "char \<Rightarrow> bool" where
  "xid_start c =
     (let n = (of_char c :: nat)
      in (65 \<le> n \<and> n \<le> 90) \<or> n = 95 \<or> (97 \<le> n \<and> n \<le> 122) \<or> n = 170 \<or> n = 181 \<or>
         n = 186 \<or> (192 \<le> n \<and> n \<le> 214) \<or> (216 \<le> n \<and> n \<le> 246) \<or> (248 \<le> n \<and> n \<le> 255))"

definition xid_continue :: "char \<Rightarrow> bool" where
  "xid_continue c =
     (let n = (of_char c :: nat) in xid_start c \<or> (48 \<le> n \<and> n \<le> 57) \<or> n = 183)"

fun isidentifier :: "string \<Rightarrow> bool" where
  "isidentifier [] = False"
| "isidentifier (c # cs) = (xid_start c \<and> list_all xid_continue cs)"

text \<open>\<open>keyword.kwlist\<close> of Python 3.7 and later; \<open>iskeyword\<close> is membership in it.\<close>

definition kwlist :: "string list" where
  "kwlist = [''False'', ''None'', ''True'', ''and'', ''as'', ''assert'', ''async'', ''await'',
     ''break'', ''class'', ''continue'', ''def'', ''del'', ''elif'', ''else'', ''except'',
     ''finally'', ''for'', ''from'', ''global'', ''if'', ''import'', ''in'', ''is'', ''lambda'',
     ''nonlocal'', ''not'', ''or'', ''pass'', ''raise'', ''return'', ''try'', ''while'', ''with'',
     ''yield'']"

definition iskeyword :: "string \<Rightarrow> bool" where
  "iskeyword s = (s \<in> set kwlist)"

text \<open>\<open>stat.startswith('_')\<close>.\<close>

fun startswith_underscore :: "string \<Rightarrow> bool" where
  "startswith_underscore [] = False"
| "startswith_underscore (c # cs) = (c = CHR ''_'')"

text \<open>\<open>str.lower\<close> on code points below 256.\<close>

definition lower_char :: "char \<Rightarrow> char" where
  "lower_char c =
     (let n = (of_char c :: nat)
      in if (65 \<le> n \<and> n \<le> 90) \<or> (192 \<le> n \<and> n \<le> 214) \<or> (216 \<le> n \<and> n \<le> 222)
         then char_of (n + 32) else c)"

definition lower :: "string \<Rightarrow> string" where
  "lower s = map lower_char s"

text \<open>
  \<open>Compare._check_stat(stat)\<close>: the checks in the order of the source. The \<open>message\<close>
  argument only changes the text of the exception and is left out.
\<close>

fun check_stat :: "pyval \<Rightarrow> exn + string" where
  "check_stat (PStr stat) =
     (if \<not> isidentifier stat then Inl ValueError
      else if iskeyword stat then Inl ValueError
      else if startswith_underscore stat then Inl ValueError
      else Inr (lower stat))"
| "check_stat v = Inl TypeError"

section \<open>Timers and the comparison object\<close>

text \<open>\<open>TimerResult\<close>, the named tuple that \<open>get_result\<close> caches on a timer.\<close>

record timer_result =
  r_id :: nat
  r_repeat :: nat
  r_stats :: "(string \<times> pyval) list"
  r_time :: "real list"
  r_number :: int

text \<open>
  \<open>_Timer\<close>. The statement, its setup and its namespace belong to the timing primitive
  (see \<open>world\<close> below) and are not fields of the model. \<open>t_stats\<close> is the dictionary
  \<open>stats\<close>, kept as an association list in insertion order; \<open>t_result\<close> is the cache
  \<open>_result\<close>; \<open>t_results\<close> tells whether the instance has an attribute named
  \<open>_results\<close>, which \<open>Compare.run\<close> creates.
\<close>

record timer =
  t_id :: nat
  t_time :: "real list"
  t_total_time :: real
  t_stats :: "(string \<times> pyval) list"
  t_result :: "timer_result option"
  t_results :: bool

text \<open>
  \<open>Compare\<close>: the id counter, the ordered dictionaries \<open>_timer\<close> and \<open>_stats\<close>,
  \<open>_number\<close>, whether \<open>_stats_namedtuple\<close> is built, and the attribute
  \<open>_catch_interrupt\<close>: \<open>None\<close> when the instance has no such attribute, \<open>Some None\<close>
  when it holds \<open>None\<close>, \<open>Some (Some e)\<close> when it holds the exception \<open>e\<close>.
\<close>

record compare =
  c_timer_id :: nat
  c_timer :: "(nat \<times> timer) list"
  c_stats :: "(string \<times> statfun) list"
  c_number :: int
  c_stats_namedtuple :: bool
  c_catch_interrupt :: "exn option option"

text \<open>
  The default statistics, as the Python library documents them: \<open>statistics.fmean\<close>,
  \<open>statistics.median\<close>, \<open>min\<close>, \<open>max\<close> and \<open>statistics.stdev\<close>.
\<close>

definition stat_mean :: statfun where
  "stat_mean t =
     (if t = [] then Raises (OtherError ''StatisticsError'')
      else Returns (PFloat (sum_list t / real (length t))))"

definition stat_median :: statfun where
  "stat_median t =
     (let data = sort t; n = length data
      in if n = 0 then Raises (OtherError ''StatisticsError'')
         else if n mod 2 = 1 then Returns (PFloat (data ! (n div 2)))
         else Returns (PFloat ((data ! (n div 2 - 1) + data ! (n div 2)) / 2)))"

definition stat_min :: statfun where
  "stat_min t = (if t = [] then Raises ValueError else Returns (PFloat (Min (set t))))"

definition stat_max :: statfun where
  "stat_max t = (if t = [] then Raises ValueError else Returns (PFloat (Max (set t))))"

definition stat_std :: statfun where
  "stat_std t =
     (if length t < 2 then Raises (OtherError ''StatisticsError'')
      else let m = sum_list t / real (length t)
           in Returns (PFloat (sqrt (sum_list (map (\<lambda>x. (x - m)\<^sup>2) t) / real (length t - 1)))))"

definition DEFAULT_STATS :: "(string \<times> statfun) list" where
  "DEFAULT_STATS = [(''mean'', stat_mean), (''median'', stat_median), (''min'', stat_min),
     (''max'', stat_max), (''std'', stat_std)]"

text \<open>\<open>Compare.__init__\<close>.\<close>

definition Compare_init :: compare where
  "Compare_init = \<lparr>c_timer_id = 0, c_timer = [], c_stats = DEFAULT_STATS, c_number = 0,
     c_stats_namedtuple = False, c_catch_interrupt = None\<rparr>"

text \<open>
  \<open>_Timer.add_stat(stat, func)\<close>: assigning to a dictionary key keeps the position of a
  key that exists and appends a new one, which is what \<open>AList.update\<close> does. An
  exception leaving \<open>_stat_call\<close> would leave this function too.
\<close>

definition timer_add_stat :: "timer \<Rightarrow> string \<Rightarrow> statfun \<Rightarrow> exn + timer" where
  "timer_add_stat tm stat func =
     (case stat_call func (t_time tm) of
        Inl e \<Rightarrow> Inl e
      | Inr v \<Rightarrow> Inr (tm\<lparr>t_stats := AList.update stat v (t_stats tm), t_result := None\<rparr>))"

text \<open>The loop \<open>for stat, func in self._stats.items(): timer.add_stat(stat, func)\<close>.\<close>

fun timer_add_stats :: "timer \<Rightarrow> (string \<times> statfun) list \<Rightarrow> exn + timer" where
  "timer_add_stats tm [] = Inr tm"
| "timer_add_stats tm ((stat, func) # rest) =
     (case timer_add_stat tm stat func of
        Inl e \<Rightarrow> Inl e
      | Inr tm' \<Rightarrow> timer_add_stats tm' rest)"

text \<open>
  \<open>Compare.add_timer\<close>: a fresh \<open>_Timer\<close> gets every registered statistic, then the next
  id of the counter, and is stored under that id. The result is the new object and the id.
\<close>

definition add_timer :: "compare \<Rightarrow> exn + (compare \<times> nat)" where
  "add_timer cmp =
     (let fresh = \<lparr>t_id = 0, t_time = [], t_total_time = 0, t_stats = [], t_result = None,
                    t_results = False\<rparr>
      in case timer_add_stats fresh (c_stats cmp) of
           Inl e \<Rightarrow> Inl e
         | Inr tm \<Rightarrow>
             (let i = c_timer_id cmp
              in Inr (cmp\<lparr>c_timer_id := Suc i,
                          c_timer := AList.update i (tm\<lparr>t_id := i\<rparr>) (c_timer cmp)\<rparr>, i)))"

text \<open>An argument passed as \<open>func\<close>: a callable or anything else.\<close>

datatype pyfunc = Callable statfun | NotCallable

text \<open>The loop \<open>for timer in self._timer.values(): timer.add_stat(stat, func)\<close>.\<close>

fun timers_add_stat :: "(nat \<times> timer) list \<Rightarrow> string \<Rightarrow> statfun \<Rightarrow> exn + (nat \<times> timer) list" where
  "timers_add_stat [] stat func = Inr []"
| "timers_add_stat ((i, tm) # rest) stat func =
     (case timer_add_stat tm stat func of
        Inl e \<Rightarrow> Inl e
      | Inr tm' \<Rightarrow>
          (case timers_add_stat rest stat func of
             Inl e \<Rightarrow> Inl e
           | Inr rest' \<Rightarrow> Inr ((i, tm') # rest')))"

text \<open>\<open>Compare.add_stat(stat, func)\<close>.\<close>

definition add_stat :: "compare \<Rightarrow> pyval \<Rightarrow> pyfunc \<Rightarrow> exn + compare" where
  "add_stat cmp stat func =
     (case check_stat stat of
        Inl e \<Rightarrow> Inl e
      | Inr name \<Rightarrow>
          (case func of
             NotCallable \<Rightarrow> Inl TypeError
           | Callable f \<Rightarrow>
               (case timers_add_stat (c_timer cmp) name f of
                  Inl e \<Rightarrow> Inl e
                | Inr tms \<Rightarrow>
                    Inr (cmp\<lparr>c_stats := AList.update name f (c_stats cmp),
                             c_stats_namedtuple := False, c_timer := tms\<rparr>))))"

text \<open>\<open>Compare._check_stat_select(stat)\<close>.\<close>

definition check_stat_select :: "compare \<Rightarrow> pyval \<Rightarrow> exn + string" where
  "check_stat_select cmp stat =
     (case check_stat stat of
        Inl e \<Rightarrow> Inl e
      | Inr name \<Rightarrow> if name \<notin> fst ` set (c_stats cmp) then Inl ValueError else Inr name)"

section \<open>The timing primitive and the outside world\<close>

text \<open>
  \<open>Timer.timeit(number)\<close> of the standard library runs the statement and is outside the
  module. A call returns the elapsed seconds, raises an \<open>Exception\<close> of the statement,
  or is cut by the user's \<open>KeyboardInterrupt\<close>. The \<open>world\<close> decides which, from the id
  of the timer, the iteration count and the number of timed calls made before.
\<close>

datatype timing = Elapsed real | Fails | Interrupted

type_synonym world = "nat \<Rightarrow> int \<Rightarrow> nat \<Rightarrow> timing"

text \<open>
  The cells of a table row stand for the text the formatting functions produce: the id,
  the repeat count, \<open>'-'\<close>, \<open>format_time(value, p)\<close>, \<open>format_percentage(percent, p)\<close>
  and \<open>format_progress(percent, p)\<close>. The statement column, which depends on the
  statement only, is left out.
\<close>

datatype cell = CId nat | CRepeat nat | CNull | CTime pyval nat | CPercent real nat
  | CProgress real nat

text \<open>
  What the module writes to standard output: the line \<open>timing now...\<close>, a progress line
  \<open>i/task_num completed\<close>, the empty \<open>print()\<close>, and the table, given by its header
  names, its body, and the two numbers of its notes (\<open>_number\<close> and the total time).
\<close>

datatype event = PrintBanner | PrintProgress nat nat | PrintNewline
  | PrintTable "string list" "cell list list" int real

text \<open>
  The state outside the objects: the timed calls made so far, each with the id of its
  timer and its iteration count, and the output.
\<close>

record sys =
  calls :: "(nat \<times> int) list"
  printed :: "event list"

definition timeit :: "world \<Rightarrow> timer \<Rightarrow> int \<Rightarrow> sys \<Rightarrow> (exn + real) \<times> sys" where
  "timeit w tm n s =
     (let s' = s\<lparr>calls := calls s @ [(t_id tm, n)]\<rparr>
      in case w (t_id tm) n (length (calls s)) of
           Elapsed t \<Rightarrow> (Inr t, s')
         | Fails \<Rightarrow> (Inl StatementError, s')
         | Interrupted \<Rightarrow> (Inl KeyboardInterrupt, s'))"

text \<open>\<open>int(x)\<close> of a float truncates towards zero.\<close>

definition py_int :: "real \<Rightarrow> int" where
  "py_int x = (if 0 \<le> x then \<lfloor>x\<rfloor> else \<lceil>x\<rceil>)"

text \<open>\<open>round(x)\<close> of a float rounds to the nearest integer, a tie to the even one.\<close>

definition py_round :: "real \<Rightarrow> int" where
  "py_round x =
     (let f = \<lfloor>x\<rfloor>; d = x - of_int f
      in if d < 1 / 2 then f else if 1 / 2 < d then f + 1 else if even f then f else f + 1)"

section \<open>Compare.run\<close>

text \<open>
  One calibration pass: \<open>t = 0.0\<close>, then \<open>for timer in new: t += timer.timeit(n)\<close>. An
  exception of a call leaves the loop.
\<close>

fun estimate_pass :: "world \<Rightarrow> timer list \<Rightarrow> int \<Rightarrow> real \<Rightarrow> sys \<Rightarrow> (exn + real) \<times> sys" where
  "estimate_pass w [] n t s = (Inr t, s)"
| "estimate_pass w (tm # tms) n t s =
     (case timeit w tm n s of
        (Inl e, s') \<Rightarrow> (Inl e, s')
      | (Inr d, s') \<Rightarrow> estimate_pass w tms n (t + d) s')"

text \<open>\<open>n = int(n * 0.25 / t) + 1 if t else n * 2\<close>.\<close>

definition next_n :: "int \<Rightarrow> real \<Rightarrow> int" where
  "next_n n t = (if t \<noteq> 0 then py_int (of_int n * 0.25 / t) + 1 else n * 2)"

text \<open>
  The \<open>while True\<close> loop of the estimation, entered with the current \<open>n\<close>. It may run for
  ever; \<open>None\<close> is the loop that does not return.
\<close>

partial_function (option) estimate ::
  "world \<Rightarrow> timer list \<Rightarrow> real \<Rightarrow> int \<Rightarrow> int \<Rightarrow> sys \<Rightarrow> ((exn + int) \<times> sys) option" where
  "estimate w tms time repeat n s =
     (case estimate_pass w tms n 0 s of
        (Inl e, s') \<Rightarrow> Some (Inl e, s')
      | (Inr t, s') \<Rightarrow>
          if t > 0.2
          then Some (Inr (max (py_round (of_int n * time / t / of_int repeat)) 1), s')
          else estimate w tms time repeat (next_n n t) s')"

text \<open>
  An entry of the temporary dictionary \<open>new\<close>: the timer it belongs to and the values
  under \<open>'time'\<close>, \<open>'total_time'\<close> and \<open>'stats'\<close>. The entry \<open>'_results'\<close> is always
  \<open>None\<close>.
\<close>

record result =
  n_timer :: timer
  n_time :: "real list"
  n_total_time :: real
  n_stats :: "(string \<times> pyval) list"

text \<open>
  \<open>progress\<close> is \<open>None\<close> for \<open>itertools.repeat(None)\<close> and \<open>Some i\<close> for the generator
  \<open>_run_progress(task_num)\<close> about to print \<open>i/task_num\<close>; \<open>next(progress)\<close> is called
  \<open>task_num + 1\<close> times at most, which the generator serves.
\<close>

definition next_progress :: "nat \<Rightarrow> nat option \<Rightarrow> sys \<Rightarrow> nat option \<times> sys" where
  "next_progress task_num progress s =
     (case progress of
        None \<Rightarrow> (None, s)
      | Some i \<Rightarrow> (Some (Suc i), s\<lparr>printed := printed s @ [PrintProgress i task_num]\<rparr>))"

text \<open>
  The inner loop of the measurement, \<open>for timer, result in new.items()\<close>: the entries
  before a call that raises stay updated.
\<close>

fun measure_round ::
  "world \<Rightarrow> int \<Rightarrow> nat \<Rightarrow> result list \<Rightarrow> nat option \<Rightarrow> sys \<Rightarrow>
     exn option \<times> result list \<times> nat option \<times> sys" where
  "measure_round w number task_num [] progress s = (None, [], progress, s)"
| "measure_round w number task_num (r # rs) progress s =
     (case timeit w (n_timer r) number s of
        (Inl e, s1) \<Rightarrow> (Some e, r # rs, progress, s1)
      | (Inr t, s1) \<Rightarrow>
          (let r' = r\<lparr>n_time := n_time r @ [t / of_int number],
                      n_total_time := n_total_time r + t\<rparr>;
               (progress1, s2) = next_progress task_num progress s1;
               (e, rs', progress2, s3) = measure_round w number task_num rs progress1 s2
           in (e, r' # rs', progress2, s3)))"

text \<open>The outer loop \<open>for _ in range(repeat)\<close>.\<close>

fun measure ::
  "world \<Rightarrow> int \<Rightarrow> nat \<Rightarrow> nat \<Rightarrow> result list \<Rightarrow> nat option \<Rightarrow> sys \<Rightarrow>
     exn option \<times> result list \<times> nat option \<times> sys" where
  "measure w number task_num 0 new progress s = (None, new, progress, s)"
| "measure w number task_num (Suc k) new progress s =
     (case measure_round w number task_num new progress s of
        (Some e, new', progress', s') \<Rightarrow> (Some e, new', progress', s')
      | (None, new', progress', s') \<Rightarrow> measure w number task_num k new' progress' s')"

text \<open>
  The body of the \<open>try\<close> statement of \<open>run\<close>. It yields the exception that left it, if
  any, with \<open>number\<close> and \<open>new\<close> as they were at that moment.
\<close>

definition run_try ::
  "world \<Rightarrow> result list \<Rightarrow> int \<Rightarrow> int \<Rightarrow> real \<Rightarrow> bool \<Rightarrow> sys \<Rightarrow>
     (exn option \<times> int \<times> result list \<times> sys) option" where
  "run_try w new repeat number time show_progress s =
     (case (if number \<le> 0 then estimate w (map n_timer new) time repeat 1 s
            else Some (Inr number, s)) of
        None \<Rightarrow> None
      | Some (Inl e, s1) \<Rightarrow> Some (Some e, number, new, s1)
      | Some (Inr number', s1) \<Rightarrow>
          (let task_num = length new * nat repeat;
               progress = (if show_progress then Some 0 else None);
               (progress1, s2) = next_progress task_num progress s1;
               (e, new', progress2, s3) = measure w number' task_num (nat repeat) new progress1 s2
           in Some (e, number', new', s3)))"

text \<open>
  \<open>for stat, func in self._stats.items(): result['stats'][stat] = _stat_call(func,
  result['time'])\<close>, the dictionary under construction as accumulator.
\<close>

fun compute_stats ::
  "(string \<times> statfun) list \<Rightarrow> real list \<Rightarrow> (string \<times> pyval) list \<Rightarrow>
     exn + (string \<times> pyval) list" where
  "compute_stats [] t acc = Inr acc"
| "compute_stats ((stat, func) # rest) t acc =
     (case stat_call func t of
        Inl e \<Rightarrow> Inl e
      | Inr v \<Rightarrow> compute_stats rest t (AList.update stat v acc))"

text \<open>The loop \<open>for result in new.values()\<close> that fills the statistics.\<close>

fun finish_results :: "(string \<times> statfun) list \<Rightarrow> result list \<Rightarrow> exn + result list" where
  "finish_results sts [] = Inr []"
| "finish_results sts (r # rs) =
     (case compute_stats sts (n_time r) (n_stats r) of
        Inl e \<Rightarrow> Inl e
      | Inr st \<Rightarrow>
          (case finish_results sts rs of
             Inl e \<Rightarrow> Inl e
           | Inr rs' \<Rightarrow> Inr (r\<lparr>n_stats := st\<rparr> # rs')))"

text \<open>
  \<open>timer.__dict__.update(result)\<close>: the keys of \<open>result\<close> are \<open>time\<close>, \<open>total_time\<close>,
  \<open>stats\<close> and \<open>_results\<close>, so the attribute \<open>_result\<close> keeps its value.
\<close>

definition update_timer :: "result \<Rightarrow> timer" where
  "update_timer r =
     (n_timer r)\<lparr>t_time := n_time r, t_total_time := n_total_time r, t_stats := n_stats r,
                 t_results := True\<rparr>"

text \<open>\<open>isinstance(x, int)\<close> and the integer and real value of a number.\<close>

fun isinstance_int :: "pyval \<Rightarrow> bool" where
  "isinstance_int (PInt i) = True"
| "isinstance_int (PBool b) = True"
| "isinstance_int v = False"

fun int_of :: "pyval \<Rightarrow> int" where
  "int_of (PInt i) = i"
| "int_of (PBool b) = (if b then 1 else 0)"
| "int_of v = 0"

fun real_of :: "pyval \<Rightarrow> real" where
  "real_of (PFloat x) = x"
| "real_of v = of_int (int_of v)"

text \<open>
  The end of \<open>run\<close>, after the \<open>try\<close> statement: the empty \<open>print()\<close>, the statistics,
  the update of the timers (the objects the dictionary \<open>_timer\<close> holds, in its order) and
  of \<open>_number\<close>.
\<close>

definition run_finish ::
  "compare \<Rightarrow> int \<Rightarrow> result list \<Rightarrow> bool \<Rightarrow> sys \<Rightarrow> exn option \<times> compare \<times> sys" where
  "run_finish cmp number new show_progress s =
     (let s' = (if show_progress then s\<lparr>printed := printed s @ [PrintNewline]\<rparr> else s)
      in case finish_results (c_stats cmp) new of
           Inl e \<Rightarrow> (Some e, cmp, s')
         | Inr new' \<Rightarrow>
             (None,
              cmp\<lparr>c_timer := zip (map fst (c_timer cmp)) (map update_timer new'),
                  c_number := number\<rparr>,
              s'))"

text \<open>
  The dictionary \<open>new\<close> as \<open>run\<close> creates it, one entry for every timer of \<open>_timer\<close> in
  its order.
\<close>

definition new_results :: "compare \<Rightarrow> result list" where
  "new_results cmp =
     map (\<lambda>tm. \<lparr>n_timer = tm, n_time = [], n_total_time = 0, n_stats = []\<rparr>)
       (map snd (c_timer cmp))"

text \<open>
  \<open>Compare.run\<close> from \<open>if not self._timer: return\<close> on, with the arguments checked and
  clamped. \<open>hasattr(self, '_catch_interrupt')\<close> is read before the \<open>try\<close> statement; the
  \<open>except\<close> clause catches \<open>KeyboardInterrupt\<close> only, and raises it again unless the
  attribute exists.
\<close>

definition run_checked ::
  "world \<Rightarrow> compare \<Rightarrow> int \<Rightarrow> int \<Rightarrow> real \<Rightarrow> bool \<Rightarrow> sys \<Rightarrow>
     (exn option \<times> compare \<times> sys) option" where
  "run_checked w cmp repeat number time show_progress s =
     (if c_timer cmp = [] then Some (None, cmp, s)
      else case run_try w (new_results cmp) repeat number time show_progress
                  (if show_progress then s\<lparr>printed := printed s @ [PrintBanner]\<rparr> else s) of
             None \<Rightarrow> None
           | Some (None, number', new', s1) \<Rightarrow>
               Some (run_finish cmp number' new' show_progress s1)
           | Some (Some e, number', new', s1) \<Rightarrow>
               if e \<noteq> KeyboardInterrupt \<or> c_catch_interrupt cmp = None
               then Some (Some e, cmp, s1)
               else Some (run_finish (cmp\<lparr>c_catch_interrupt := Some (Some e)\<rparr>) number' new'
                            show_progress s1))"

text \<open>
  \<open>Compare.run(repeat, number, time, show_progress)\<close>. The result is \<open>None\<close> when the
  estimation loop never ends; otherwise the exception that leaves \<open>run\<close> (if any), the
  object and the outside state afterwards.
\<close>

definition run ::
  "world \<Rightarrow> compare \<Rightarrow> pyval \<Rightarrow> pyval \<Rightarrow> pyval \<Rightarrow> bool \<Rightarrow> sys \<Rightarrow>
     (exn option \<times> compare \<times> sys) option" where
  "run w cmp repeat number time show_progress s =
     (if \<not> isinstance_int repeat then Some (Some TypeError, cmp, s)
      else if \<not> isinstance_int number then Some (Some TypeError, cmp, s)
      else if \<not> isinstance_float_int time then Some (Some TypeError, cmp, s)
      else run_checked w cmp (if int_of repeat < 1 then 1 else int_of repeat) (int_of number)
             (if real_of time < 0 then 0 else real_of time) show_progress s)"

section \<open>Printing the results\<close>

text \<open>
  The selection of \<open>_print_results_args\<close>, after its first check. \<open>include\<close> and \<open>exclude\<close> are
  \<open>None\<close> or the ids of the set built from the argument, \<open>include\<close> in the order in which
  that set iterates. \<open>self._timer[i]\<close> raises \<open>KeyError\<close> for an id that is not registered.
\<close>

fun include_timers :: "(nat \<times> timer) list \<Rightarrow> nat list \<Rightarrow> exn + timer list" where
  "include_timers tab [] = Inr []"
| "include_timers tab (i # is) =
     (case map_of tab i of
        None \<Rightarrow> Inl KeyError
      | Some tm \<Rightarrow>
          (case include_timers tab is of
             Inl e \<Rightarrow> Inl e
           | Inr tms \<Rightarrow> Inr (tm # tms)))"

definition select_timers :: "compare \<Rightarrow> nat list option \<Rightarrow> nat list option \<Rightarrow> exn + timer list" where
  "select_timers cmp include exclude =
     (case include of
        Some inc \<Rightarrow> include_timers (c_timer cmp) inc
      | None \<Rightarrow>
          (case exclude of
             Some exc \<Rightarrow> Inr (map snd (filter (\<lambda>(i, tm). i \<notin> set exc) (c_timer cmp)))
           | None \<Rightarrow> Inr (map snd (c_timer cmp))))"

text \<open>The comprehension \<open>[self._check_stat_select(stat) for stat in stats]\<close>.\<close>

fun check_stats_select :: "compare \<Rightarrow> pyval list \<Rightarrow> exn + string list" where
  "check_stats_select cmp [] = Inr []"
| "check_stats_select cmp (v # vs) =
     (case check_stat_select cmp v of
        Inl e \<Rightarrow> Inl e
      | Inr name \<Rightarrow>
          (case check_stats_select cmp vs of
             Inl e \<Rightarrow> Inl e
           | Inr names \<Rightarrow> Inr (name # names)))"

text \<open>
  The checked arguments of \<open>_print_results\<close>: the timers, \<open>sort_by\<close>, \<open>reverse\<close>, the
  statistics of the header, those that show a percentage (a set, kept as a list without
  duplicates) and the precision. The precision is an int from 1 to 8 or the bool \<open>True\<close>:
  a bool is an instance of \<open>int\<close>, and \<open>True\<close> is neither below 1 nor above 8, so the
  clamping keeps it.
\<close>

type_synonym print_args = "timer list \<times> string option \<times> bool \<times> string list \<times> string list \<times> pyval"

text \<open>
  \<open>Compare._print_results_args\<close>. \<open>sort_by\<close> is \<open>None\<close> or any value; \<open>stats\<close> and
  \<open>percentage\<close> are \<open>None\<close> or the list of their items (a string argument is split at
  commas and blanks first, which is left to the caller of the model). A \<open>percentage\<close> of
  \<open>None\<close> stands for \<open>sort_by\<close>, which is then split and checked like a string argument.
\<close>

definition print_results_args ::
  "compare \<Rightarrow> nat list option \<Rightarrow> nat list option \<Rightarrow> pyval \<Rightarrow> bool \<Rightarrow> pyval list option \<Rightarrow>
     pyval list option \<Rightarrow> pyval \<Rightarrow> exn + print_args" where
  "print_results_args cmp include exclude sort_by reverse stats percentage precision =
     (if include \<noteq> None \<and> exclude \<noteq> None then Inl ValueError
      else
     (case select_timers cmp include exclude of
        Inl e \<Rightarrow> Inl e
      | Inr timers \<Rightarrow>
     (case (if sort_by \<noteq> PNone then map_sum id Some (check_stat_select cmp sort_by)
            else Inr None) of
        Inl e \<Rightarrow> Inl e
      | Inr sort_by' \<Rightarrow>
     (case (case stats of
              None \<Rightarrow> Inr (map fst (c_stats cmp))
            | Some items \<Rightarrow> check_stats_select cmp items) of
        Inl e \<Rightarrow> Inl e
      | Inr stats' \<Rightarrow>
     (case (case percentage of
              None \<Rightarrow>
                (case sort_by' of
                   None \<Rightarrow> Inr []
                 | Some name \<Rightarrow> check_stats_select cmp [PStr name])
            | Some items \<Rightarrow> check_stats_select cmp items) of
        Inl e \<Rightarrow> Inl e
      | Inr checked \<Rightarrow>
          (let percentage' = filter (\<lambda>stat. stat \<in> set stats') (remdups checked)
           in if \<not> isinstance_int precision then Inl TypeError
              else Inr (timers, sort_by', reverse, stats', percentage',
                        (if int_of precision < 1 then PInt 1
                         else if int_of precision > 8 then PInt 8
                         else precision))))))))"

text \<open>
  \<open>timer.stats[stat]\<close> for a key that is present; \<open>print_results_core\<close> below raises the
  \<open>KeyError\<close> of a key that is missing.
\<close>

definition stat_of :: "timer \<Rightarrow> string \<Rightarrow> pyval" where
  "stat_of tm stat = (case map_of (t_stats tm) stat of Some v \<Rightarrow> v | None \<Rightarrow> PNone)"

text \<open>
  \<open>list.sort(key=..., reverse=...)\<close> is stable; with \<open>reverse\<close> it sorts in descending
  order and still keeps the order of elements with equal keys, which is a stable ascending
  sort of the reversed list, reversed.
\<close>

definition py_sort :: "('a \<Rightarrow> real) \<Rightarrow> bool \<Rightarrow> 'a list \<Rightarrow> 'a list" where
  "py_sort key reverse xs = (if reverse then rev (sort_key key (rev xs)) else sort_key key xs)"

text \<open>
  The sorting in \<open>_print_results\<close>: the timers whose \<open>sort_by\<close> statistic is not \<open>None\<close> go
  to \<open>timers_sort\<close>, the others to \<open>timers_none\<close>; \<open>timers_sort\<close> is sorted and
  \<open>timers_none\<close> appended.
\<close>

definition sort_timers :: "string option \<Rightarrow> bool \<Rightarrow> timer list \<Rightarrow> timer list" where
  "sort_timers sort_by reverse timers =
     (case sort_by of
        None \<Rightarrow> timers
      | Some name \<Rightarrow>
          (let (timers_sort, timers_none) = partition (\<lambda>tm. stat_of tm name \<noteq> PNone) timers
           in py_sort (\<lambda>tm. real_of (stat_of tm name)) reverse timers_sort @ timers_none))"

text \<open>
  \<open>max_value[stat]\<close> after the loop over the timers: it starts at \<open>0.0\<close> and takes every
  value that is not \<open>None\<close> and greater.
\<close>

definition max_value :: "timer list \<Rightarrow> string \<Rightarrow> real" where
  "max_value timers stat =
     foldl (\<lambda>m tm. let v = stat_of tm stat
                    in if v \<noteq> PNone \<and> real_of v > m then real_of v else m) 0 timers"

text \<open>\<open>percent = value / max_value[stat] if max_value[stat] else 1.0\<close>.\<close>

definition percent_of :: "pyval \<Rightarrow> real \<Rightarrow> real" where
  "percent_of v m = (if m \<noteq> 0 then real_of v / m else 1)"

text \<open>
  \<open>_Timer.get_line(stats, max_value, precision)\<close>; \<open>max_value\<close> has the statistics of
  \<open>percentage\<close> as its keys.
\<close>

definition stat_cells :: "timer \<Rightarrow> string list \<Rightarrow> (string \<Rightarrow> real) \<Rightarrow> nat \<Rightarrow> string \<Rightarrow> cell list" where
  "stat_cells tm percentage maxv precision stat =
     (let v = stat_of tm stat
      in (if v \<noteq> PNone then CTime v precision else CNull) #
         (if stat \<in> set percentage
          then (if v \<noteq> PNone
                then [CPercent (percent_of v (maxv stat)) (precision - 2),
                      CProgress (percent_of v (maxv stat)) (5 + precision)]
                else [CNull, CNull])
          else []))"

definition get_line :: "timer \<Rightarrow> string list \<Rightarrow> string list \<Rightarrow> (string \<Rightarrow> real) \<Rightarrow> nat \<Rightarrow> cell list" where
  "get_line tm stats percentage maxv precision =
     CId (t_id tm) # CRepeat (length (t_time tm)) #
       concat (map (stat_cells tm percentage maxv precision) stats)"

text \<open>
  \<open>format_time(second, p)\<close> writes \<open>p\<close> into the format specification \<open>#.{p}g\<close>. An int
  that is not negative gives its digits; \<open>True\<close> gives the word \<open>True\<close>, which is no
  format specification, and the formatting raises \<open>ValueError\<close>.
\<close>

fun format_time_raises :: "pyval \<Rightarrow> bool" where
  "format_time_raises (PInt p) = (p < 0)"
| "format_time_raises p = True"

text \<open>
  The exception that leaves \<open>get_line\<close>, if any. For every statistic of \<open>stats\<close> in turn,
  \<open>self.stats[stat]\<close> raises \<open>KeyError\<close> for a missing key, and \<open>format_time\<close> is called
  for a value that is not \<open>None\<close>. The second function is the same for the comprehension
  that builds the body, timer after timer.
\<close>

fun get_line_error :: "timer \<Rightarrow> string list \<Rightarrow> pyval \<Rightarrow> exn option" where
  "get_line_error tm [] precision = None"
| "get_line_error tm (stat # rest) precision =
     (case map_of (t_stats tm) stat of
        None \<Rightarrow> Some KeyError
      | Some v \<Rightarrow>
          if v \<noteq> PNone \<and> format_time_raises precision then Some ValueError
          else get_line_error tm rest precision)"

fun body_error :: "timer list \<Rightarrow> string list \<Rightarrow> pyval \<Rightarrow> exn option" where
  "body_error [] stats precision = None"
| "body_error (tm # tms) stats precision =
     (case get_line_error tm stats precision of
        Some e \<Rightarrow> Some e
      | None \<Rightarrow> body_error tms stats precision)"

text \<open>
  \<open>Compare._print_results\<close>. The sorting reads the \<open>sort_by\<close> statistic of every timer
  and the loop for \<open>max_value\<close> those of \<open>percentage\<close>, so a missing key there raises
  \<open>KeyError\<close>; then the body is built line by line. All of this comes before the one
  \<open>print\<close> at the end, so an exception leaves with nothing printed. The layout of the
  table is not modelled: the event holds the statistics of the header, the rows, \<open>_number\<close>
  and the total time of the notes.
\<close>

definition print_results_core ::
  "compare \<Rightarrow> timer list \<Rightarrow> string option \<Rightarrow> bool \<Rightarrow> string list \<Rightarrow> string list \<Rightarrow> pyval \<Rightarrow> sys \<Rightarrow>
     exn option \<times> sys" where
  "print_results_core cmp timers sort_by reverse stats percentage precision s =
     (if list_ex (\<lambda>tm. list_ex (\<lambda>stat. map_of (t_stats tm) stat = None)
                         ((case sort_by of None \<Rightarrow> [] | Some name \<Rightarrow> [name]) @ percentage))
           timers
      then (Some KeyError, s)
      else let sorted_timers = sort_timers sort_by reverse timers
           in case body_error sorted_timers stats precision of
                Some e \<Rightarrow> (Some e, s)
              | None \<Rightarrow>
                  (let body = map (\<lambda>tm. get_line tm stats percentage (max_value sorted_timers)
                                         (nat (int_of precision)))
                                sorted_timers;
                       total_time = sum_list (map t_total_time sorted_timers)
                   in (None, s\<lparr>printed := printed s @
                                [PrintTable stats body (c_number cmp) total_time]\<rparr>)))"

text \<open>\<open>Compare.print_results\<close>.\<close>

definition print_results ::
  "compare \<Rightarrow> nat list option \<Rightarrow> nat list option \<Rightarrow> pyval \<Rightarrow> bool \<Rightarrow> pyval list option \<Rightarrow>
     pyval list option \<Rightarrow> pyval \<Rightarrow> sys \<Rightarrow> exn option \<times> sys" where
  "print_results cmp include exclude sort_by reverse stats percentage precision s =
     (case print_results_args cmp include exclude sort_by reverse stats percentage precision of
        Inl e \<Rightarrow> (Some e, s)
      | Inr (timers, sort_by', reverse', stats', percentage', precision') \<Rightarrow>
          print_results_core cmp timers sort_by' reverse' stats' percentage' precision' s)"

section \<open>The convenience function compare\<close>

text \<open>The statements \<open>for args in add_timers\<close> (given by their number) and \<open>for stat, func in add_stats\<close>.\<close>

fun add_timers :: "compare \<Rightarrow> nat \<Rightarrow> exn + compare" where
  "add_timers cmp 0 = Inr cmp"
| "add_timers cmp (Suc k) =
     (case add_timer cmp of
        Inl e \<Rightarrow> Inl e
      | Inr (cmp', i) \<Rightarrow> add_timers cmp' k)"

fun add_stats :: "compare \<Rightarrow> (pyval \<times> pyfunc) list \<Rightarrow> exn + compare" where
  "add_stats cmp [] = Inr cmp"
| "add_stats cmp ((stat, func) # rest) =
     (case add_stat cmp stat func of
        Inl e \<Rightarrow> Inl e
      | Inr cmp' \<Rightarrow> add_stats cmp' rest)"

text \<open>
  \<open>compare(*add_timers, ...)\<close>. The list of timers that \<open>_print_results_args\<close> returned
  before the run holds the objects that \<open>run\<close> updates in place, so \<open>_print_results\<close>
  sees them as they are after the run.
\<close>

definition compare ::
  "world \<Rightarrow> nat \<Rightarrow> (pyval \<times> pyfunc) list \<Rightarrow> pyval \<Rightarrow> pyval \<Rightarrow> pyval \<Rightarrow> bool \<Rightarrow> pyval \<Rightarrow> bool \<Rightarrow>
     pyval list option \<Rightarrow> pyval list option \<Rightarrow> pyval \<Rightarrow> sys \<Rightarrow> (exn option \<times> sys) option" where
  "compare w timers stat_list repeat number time show_progress sort_by reverse stats percentage
      precision s =
     (case add_timers Compare_init timers of
        Inl e \<Rightarrow> Some (Some e, s)
      | Inr cmp1 \<Rightarrow>
     (case add_stats cmp1 stat_list of
        Inl e \<Rightarrow> Some (Some e, s)
      | Inr cmp2 \<Rightarrow>
     (case print_results_args cmp2 None None sort_by reverse stats percentage precision of
        Inl e \<Rightarrow> Some (Some e, s)
      | Inr (timers', sort_by', reverse', stats', percentage', precision') \<Rightarrow>
     (case run w (cmp2\<lparr>c_catch_interrupt := Some None\<rparr>) repeat number time show_progress s of
        None \<Rightarrow> None
      | Some (Some e, cmp3, s1) \<Rightarrow> Some (Some e, s1)
      | Some (None, cmp3, s1) \<Rightarrow>
          (let interrupt = c_catch_interrupt cmp3
           in case print_results_core cmp3 (map snd (c_timer cmp3)) sort_by' reverse' stats'
                     percentage' precision' s1 of
                (Some e, s2) \<Rightarrow> Some (Some e, s2)
              | (None, s2) \<Rightarrow>
                  (case interrupt of
                     Some (Some e) \<Rightarrow> Some (Some e, s2)
                   | _ \<Rightarrow> Some (None, s2)))))))"


section \<open>Example objects\<close>

text \<open>
  A comparison object with the statistic \<open>mean\<close> only and two timers that were never
  run, and the outside state before anything happened.
\<close>

definition unrun_timer :: "nat \<Rightarrow> timer" where
  "unrun_timer i = \<lparr>t_id = i, t_time = [], t_total_time = 0, t_stats = [(''mean'', PNone)],
     t_result = None, t_results = False\<rparr>"

definition two_timers :: compare where
  "two_timers = \<lparr>c_timer_id = 2, c_timer = [(0, unrun_timer 0), (1, unrun_timer 1)],
     c_stats = [(''mean'', stat_mean)], c_number = 0, c_stats_namedtuple = False,
     c_catch_interrupt = None\<rparr>"

definition sys_init :: sys where
  "sys_init = \<lparr>calls = [], printed = []\<rparr>"

text \<open>
  A world for the estimation: one statement whose pass takes 0.15 s at one iteration,
  0.19 s at two and 0.3 s at three or more. The second definition is the entry of \<open>new\<close>
  of a timer that was never run.
\<close>

definition calib_world :: world where
  "calib_world i n k = Elapsed (if n = 1 then 15 / 100 else if n = 2 then 19 / 100 else 3 / 10)"

definition new_entry :: "timer \<Rightarrow> result" where
  "new_entry tm = \<lparr>n_timer = tm, n_time = [], n_total_time = 0, n_stats = []\<rparr>"

text \<open>A timer that was run once and has one statistic.\<close>

definition stat_timer :: "nat \<Rightarrow> string \<Rightarrow> pyval \<Rightarrow> timer" where
  "stat_timer i name v = \<lparr>t_id = i, t_time = [1], t_total_time = 1, t_stats = [(name, v)],
     t_result = None, t_results = True\<rparr>"




text \<open>
  A timer that was run once under the default statistics (one duration, so no standard
  deviation), and an object that holds the timers 1 and 8 of nine that were registered,
  after a run with one execution per repetition.
\<close>

definition run_once_timer :: "nat \<Rightarrow> timer" where
  "run_once_timer i = \<lparr>t_id = i, t_time = [1 / 10], t_total_time = 1 / 10,
     t_stats = [(''mean'', PFloat (1 / 10)), (''median'', PFloat (1 / 10)),
                (''min'', PFloat (1 / 10)), (''max'', PFloat (1 / 10)), (''std'', PNone)],
     t_result = None, t_results = True\<rparr>"

definition two_of_nine :: compare where
  "two_of_nine = \<lparr>c_timer_id = 9, c_timer = [(1, run_once_timer 1), (8, run_once_timer 8)],
     c_stats = DEFAULT_STATS, c_number = 1, c_stats_namedtuple = False,
     c_catch_interrupt = None\<rparr>"

section \<open>The statistics engine never raises\<close>



lemma timer_add_stat_Inr:
  "timer_add_stat tm stat func =
     Inr (tm\<lparr>t_stats := AList.update stat (projr (stat_call func (t_time tm))) (t_stats tm), t_result := None\<rparr>)"
  by (cases "func (t_time tm)") (simp_all add: timer_add_stat_def stat_call_def)

lemma timers_add_stat_Inr:
  "\<exists>tms'. timers_add_stat tms stat func = Inr tms' \<and> map fst tms' = map fst tms"
  by (induction tms) (auto simp: timer_add_stat_Inr)

section \<open>Registering a statistic\<close>

text \<open>
  C8. Registering a statistic validates its name: a name that is not a string raises
  \<open>TypeError\<close>; a string that is not an identifier, is a keyword or starts with an
  underscore raises \<open>ValueError\<close>; an accepted name is stored in lower case, an existing
  entry is overwritten in place and a new one is appended, so the display order of the
  other statistics is kept.
\<close>

theorem add_stat_validates_name:
  "((\<forall>s. v \<noteq> PStr s) \<longrightarrow> add_stat cmp v func = Inl TypeError) \<and>
   (\<not> isidentifier s \<or> iskeyword s \<or> startswith_underscore s \<longrightarrow>
      add_stat cmp (PStr s) func = Inl ValueError) \<and>
   (isidentifier s \<and> \<not> iskeyword s \<and> \<not> startswith_underscore s \<longrightarrow>
      (\<exists>cmp'. add_stat cmp (PStr s) (Callable f) = Inr cmp' \<and>
         map_of (c_stats cmp') (lower s) = Some f \<and>
         (\<forall>k. k \<noteq> lower s \<longrightarrow> map_of (c_stats cmp') k = map_of (c_stats cmp) k) \<and>
         map fst (c_stats cmp') =
           (if lower s \<in> set (map fst (c_stats cmp)) then map fst (c_stats cmp)
            else map fst (c_stats cmp) @ [lower s])))"
proof (intro conjI impI)
  assume "\<forall>s. v \<noteq> PStr s"
  then show "add_stat cmp v func = Inl TypeError"
    by (cases v) (simp_all add: add_stat_def)
next
  assume "\<not> isidentifier s \<or> iskeyword s \<or> startswith_underscore s"
  then show "add_stat cmp (PStr s) func = Inl ValueError"
    by (auto simp: add_stat_def)
next
  assume ok: "isidentifier s \<and> \<not> iskeyword s \<and> \<not> startswith_underscore s"
  obtain tms where tms: "timers_add_stat (c_timer cmp) (lower s) f = Inr tms"
    using timers_add_stat_Inr by blast
  let ?cmp' = "cmp\<lparr>c_stats := AList.update (lower s) f (c_stats cmp),
                     c_stats_namedtuple := False, c_timer := tms\<rparr>"
  have "add_stat cmp (PStr s) (Callable f) = Inr ?cmp'"
    using ok tms by (simp add: add_stat_def)
  moreover have "map_of (c_stats ?cmp') (lower s) = Some f"
    by (simp add: update_conv')
  moreover have "\<forall>k. k \<noteq> lower s \<longrightarrow> map_of (c_stats ?cmp') k = map_of (c_stats cmp) k"
    by (simp add: update_conv')
  moreover have "map fst (c_stats ?cmp') =
      (if lower s \<in> set (map fst (c_stats cmp)) then map fst (c_stats cmp)
       else map fst (c_stats cmp) @ [lower s])"
    by (simp add: update_keys)
  ultimately show "\<exists>cmp'. add_stat cmp (PStr s) (Callable f) = Inr cmp' \<and>
         map_of (c_stats cmp') (lower s) = Some f \<and>
         (\<forall>k. k \<noteq> lower s \<longrightarrow> map_of (c_stats cmp') k = map_of (c_stats cmp) k) \<and>
         map fst (c_stats cmp') =
           (if lower s \<in> set (map fst (c_stats cmp)) then map fst (c_stats cmp)
            else map fst (c_stats cmp) @ [lower s])"
    by blast
qed

theorem add_stat_validates_name_witness:
  "add_stat Compare_init (PInt 3) NotCallable = Inl TypeError \<and>
   add_stat Compare_init (PStr ''_private'') (Callable stat_mean) = Inl ValueError \<and>
   add_stat Compare_init (PStr ''for'') (Callable stat_mean) = Inl ValueError \<and>
   add_stat Compare_init (PStr ''2x'') (Callable stat_mean) = Inl ValueError \<and>
   (\<exists>cmp'. add_stat Compare_init (PStr ''Max'') (Callable stat_min) = Inr cmp' \<and>
      map_of (c_stats cmp') ''max'' = Some stat_min \<and>
      map fst (c_stats cmp') = [''mean'', ''median'', ''min'', ''max'', ''std''])"
proof -
  have l: "lower ''Max'' = ''max''" by code_simp
  have a: "isidentifier ''Max'' \<and> \<not> iskeyword ''Max'' \<and> \<not> startswith_underscore ''Max''" by code_simp
  have b: "\<not> isidentifier ''_private'' \<or> iskeyword ''_private'' \<or> startswith_underscore ''_private''" by simp
  have c: "\<not> isidentifier ''for'' \<or> iskeyword ''for'' \<or> startswith_underscore ''for''" by code_simp
  have d: "\<not> isidentifier ''2x'' \<or> iskeyword ''2x'' \<or> startswith_underscore ''2x''" by code_simp
  have k: "map fst (c_stats Compare_init) = [''mean'', ''median'', ''min'', ''max'', ''std'']"
    by (simp add: Compare_init_def DEFAULT_STATS_def)
  have 1: "add_stat Compare_init (PInt 3) NotCallable = Inl TypeError"
    using add_stat_validates_name [of "PInt 3" Compare_init NotCallable "''Max''" stat_min] by simp
  have 2: "add_stat Compare_init (PStr ''_private'') (Callable stat_mean) = Inl ValueError"
    using add_stat_validates_name [of "PInt 3" Compare_init "Callable stat_mean" "''_private''" stat_min] b
    by blast
  have 3: "add_stat Compare_init (PStr ''for'') (Callable stat_mean) = Inl ValueError"
    using add_stat_validates_name [of "PInt 3" Compare_init "Callable stat_mean" "''for''" stat_min] c
    by blast
  have 4: "add_stat Compare_init (PStr ''2x'') (Callable stat_mean) = Inl ValueError"
    using add_stat_validates_name [of "PInt 3" Compare_init "Callable stat_mean" "''2x''" stat_min] d
    by blast
  have 5: "\<exists>cmp'. add_stat Compare_init (PStr ''Max'') (Callable stat_min) = Inr cmp' \<and>
      map_of (c_stats cmp') ''max'' = Some stat_min \<and>
      map fst (c_stats cmp') = [''mean'', ''median'', ''min'', ''max'', ''std'']"
    using add_stat_validates_name [of "PInt 3" Compare_init NotCallable "''Max''" stat_min] a
    unfolding l k by auto
  show ?thesis using 1 2 3 4 5 by blast
qed

section \<open>A run in which every timed call returns\<close>

lemma timeit_elapsed:
  assumes "\<forall>i n k. \<exists>d. w i n k = Elapsed d"
  shows "\<exists>d. timeit w tm n s = (Inr d, s\<lparr>calls := calls s @ [(t_id tm, n)]\<rparr>)"
proof -
  obtain d where "w (t_id tm) n (length (calls s)) = Elapsed d" using assms by blast
  then show ?thesis by (simp add: timeit_def)
qed

lemma next_progress_calls: "next_progress task p s = (p', s') \<Longrightarrow> calls s' = calls s"
  by (auto simp: next_progress_def split: option.splits)

lemma estimate_pass_ok:
  assumes "\<forall>i n k. \<exists>d. w i n k = Elapsed d"
  shows "\<exists>t s'. estimate_pass w tms n t0 s = (Inr t, s') \<and>
           calls s' = calls s @ map (\<lambda>tm. (t_id tm, n)) tms \<and> printed s' = printed s"
proof (induction tms arbitrary: t0 s)
  case Nil
  show ?case by simp
next
  case (Cons tm tms)
  obtain d where d: "timeit w tm n s = (Inr d, s\<lparr>calls := calls s @ [(t_id tm, n)]\<rparr>)"
    using timeit_elapsed [OF assms] by blast
  from Cons.IH [of "t0 + d" "s\<lparr>calls := calls s @ [(t_id tm, n)]\<rparr>"]
  show ?case by (auto simp: d)
qed

lemma estimate_ok:
  assumes w: "\<forall>i n k. \<exists>d. w i n k = Elapsed d"
    and e: "estimate w tms time repeat n s = Some y"
  shows "\<exists>number ns s'. y = (Inr number, s') \<and> 1 \<le> number \<and>
      calls s' = calls s @ concat (map (\<lambda>m. map (\<lambda>tm. (t_id tm, m)) tms) (n # ns)) \<and>
      printed s' = printed s"
proof -
  let ?P = "\<lambda>(w::world) (tms::timer list) (time::real) (repeat::int) (n::int) s y.
      (\<forall>i n k. \<exists>d. w i n k = Elapsed d) \<longrightarrow>
      (\<exists>number ns s'. y = (Inr number, s') \<and> 1 \<le> number \<and>
         calls s' = calls s @ concat (map (\<lambda>m. map (\<lambda>tm. (t_id tm, m)) tms) (n # ns)) \<and>
         printed s' = printed s)"
  have "?P w tms time repeat n s y"
  proof (rule estimate.raw_induct [where P = ?P, OF _ e])
    fix est w tms time repeat n s y
    assume IH: "\<And>w tms time repeat n s y. est w tms time repeat n s = Some y \<Longrightarrow>
        ?P w tms time repeat n s y"
      and body: "(case estimate_pass w tms n 0 s of
          (Inl e, s') \<Rightarrow> Some (Inl e, s')
        | (Inr t, s') \<Rightarrow>
            if 2 / 10 < t
            then Some (Inr (max (py_round (real_of_int n * time / t / real_of_int repeat)) 1), s')
            else est w tms time repeat (next_n n t) s') = Some y"
    show "?P w tms time repeat n s y"
    proof
      assume w: "\<forall>i n k. \<exists>d. w i n k = Elapsed d"
      obtain t s1 where p: "estimate_pass w tms n 0 s = (Inr t, s1)"
        and c: "calls s1 = calls s @ map (\<lambda>tm. (t_id tm, n)) tms" and o: "printed s1 = printed s"
        using estimate_pass_ok [OF w] by blast
      show "\<exists>number ns s'. y = (Inr number, s') \<and> 1 \<le> number \<and>
         calls s' = calls s @ concat (map (\<lambda>m. map (\<lambda>tm. (t_id tm, m)) tms) (n # ns)) \<and>
         printed s' = printed s"
      proof (cases "2 / 10 < t")
        case True
        with body p
        have "y = (Inr (max (py_round (real_of_int n * time / t / real_of_int repeat)) 1), s1)"
          by simp
        moreover have "calls s1 =
            calls s @ concat (map (\<lambda>m. map (\<lambda>tm. (t_id tm, m)) tms) (n # []))"
          using c by simp
        ultimately show ?thesis using o by (intro exI [of _ "[]"] exI) auto
      next
        case False
        with body p have "est w tms time repeat (next_n n t) s1 = Some y" by simp
        from IH [OF this] w obtain number ns s' where
          r: "y = (Inr number, s')" "1 \<le> number"
            "calls s' = calls s1 @
               concat (map (\<lambda>m. map (\<lambda>tm. (t_id tm, m)) tms) (next_n n t # ns))"
            "printed s' = printed s1"
          by blast
        have "calls s' =
            calls s @ concat (map (\<lambda>m. map (\<lambda>tm. (t_id tm, m)) tms) (n # next_n n t # ns))"
          using r(3) c by simp
        with r(1,2,4) o show ?thesis by (intro exI [of _ number] exI [of _ "next_n n t # ns"]) auto
      qed
    qed
  qed
  with w show ?thesis by blast
qed

lemma measure_round_ok:
  assumes "\<forall>i n k. \<exists>d. w i n k = Elapsed d"
  shows "\<exists>rs' p' s'. measure_round w number task rs p s = (None, rs', p', s') \<and>
           calls s' = calls s @ map (\<lambda>r. (t_id (n_timer r), number)) rs \<and>
           map n_timer rs' = map n_timer rs \<and>
           map n_stats rs' = map n_stats rs \<and>
           map (\<lambda>r. length (n_time r)) rs' = map (\<lambda>r. Suc (length (n_time r))) rs"
proof (induction rs arbitrary: p s)
  case Nil
  show ?case by simp
next
  case (Cons r rs)
  obtain d where d: "timeit w (n_timer r) number s =
      (Inr d, s\<lparr>calls := calls s @ [(t_id (n_timer r), number)]\<rparr>)"
    using timeit_elapsed [OF assms] by blast
  obtain p1 s2 where np: "next_progress task p (s\<lparr>calls := calls s @ [(t_id (n_timer r), number)]\<rparr>) = (p1, s2)"
    by fastforce
  have c2: "calls s2 = calls s @ [(t_id (n_timer r), number)]"
    using next_progress_calls [OF np] by simp
  from Cons.IH [of p1 s2] obtain rs' p' s' where
    m: "measure_round w number task rs p1 s2 = (None, rs', p', s')"
    and r: "calls s' = calls s2 @ map (\<lambda>r. (t_id (n_timer r), number)) rs"
      "map n_timer rs' = map n_timer rs" "map n_stats rs' = map n_stats rs"
      "map (\<lambda>r. length (n_time r)) rs' = map (\<lambda>r. Suc (length (n_time r))) rs"
    by blast
  show ?case using r c2 by (simp add: d np m)
qed

lemma measure_ok:
  assumes "\<forall>i n k. \<exists>d. w i n k = Elapsed d"
  shows "\<exists>new' p' s'. measure w number task k new p s = (None, new', p', s') \<and>
           calls s' = calls s @ concat (replicate k (map (\<lambda>r. (t_id (n_timer r), number)) new)) \<and>
           map n_timer new' = map n_timer new \<and>
           map n_stats new' = map n_stats new \<and>
           map (\<lambda>r. length (n_time r)) new' = map (\<lambda>r. length (n_time r) + k) new"
proof (induction k arbitrary: new p s)
  case 0
  show ?case by simp
next
  case (Suc k)
  obtain rs' p' s' where m: "measure_round w number task new p s = (None, rs', p', s')"
    and r: "calls s' = calls s @ map (\<lambda>r. (t_id (n_timer r), number)) new"
      "map n_timer rs' = map n_timer new" "map n_stats rs' = map n_stats new"
      "map (\<lambda>r. length (n_time r)) rs' = map (\<lambda>r. Suc (length (n_time r))) new"
    using measure_round_ok [OF assms] by blast
  have ids: "map (\<lambda>r. (t_id (n_timer r), number)) rs' = map (\<lambda>r. (t_id (n_timer r), number)) new"
    using r(2) by (simp add: list_eq_iff_nth_eq)
  have len: "map (\<lambda>r. length (n_time r) + k) rs' = map (\<lambda>r. length (n_time r) + Suc k) new"
    using r(4) by (simp add: list_eq_iff_nth_eq)
  from Suc.IH [of rs' p' s'] show ?case
    using r ids len by (auto simp: m)
qed


lemma stat_call_Inr: "\<exists>v. stat_call f t = Inr v"
  by (cases "f t") (simp_all add: stat_call_def)

lemma update_fresh: "k \<notin> fst ` set al \<Longrightarrow> AList.update k v al = al @ [(k, v)]"
  by (induction al) auto

lemma compute_stats_distinct:
  assumes "distinct (map fst sts)" and "fst ` set acc \<inter> fst ` set sts = {}"
  shows "\<exists>st. compute_stats sts t acc = Inr st \<and>
           map (\<lambda>(k, v). (k, Inr v)) st =
             map (\<lambda>(k, v). (k, Inr v)) acc @ map (\<lambda>(k, f). (k, stat_call f t)) sts"
  using assms
proof (induction sts arbitrary: acc)
  case Nil
  show ?case by simp
next
  case (Cons p sts)
  obtain k f where p: "p = (k, f)" by (cases p)
  obtain v where v: "stat_call f t = Inr v" using stat_call_Inr by blast
  have fresh: "k \<notin> fst ` set acc" using Cons.prems(2) p by auto
  have u: "AList.update k v acc = acc @ [(k, v)]" using update_fresh [OF fresh] .
  have d: "distinct (map fst sts)" using Cons.prems(1) by simp
  have i: "fst ` set (acc @ [(k, v)]) \<inter> fst ` set sts = {}"
    using Cons.prems p by auto
  from Cons.IH [OF d i] show ?case by (auto simp: p v u)
qed

lemma finish_results_ok:
  assumes "distinct (map fst sts)" and "\<forall>r\<in>set rs. n_stats r = []"
  shows "\<exists>rs'. finish_results sts rs = Inr rs' \<and>
           map n_timer rs' = map n_timer rs \<and> map n_time rs' = map n_time rs \<and>
           map n_total_time rs' = map n_total_time rs \<and>
           (\<forall>r'\<in>set rs'. map (\<lambda>(k, v). (k, Inr v)) (n_stats r') =
              map (\<lambda>(k, f). (k, stat_call f (n_time r'))) sts)"
  using assms(2)
proof (induction rs)
  case Nil
  show ?case by simp
next
  case (Cons r rs)
  have "fst ` set (n_stats r) \<inter> fst ` set sts = {}" using Cons.prems by simp
  from compute_stats_distinct [OF assms(1) this, of "n_time r"] obtain st where
    st: "compute_stats sts (n_time r) (n_stats r) = Inr st"
    and m: "map (\<lambda>(k, v). (k, Inr v)) st = map (\<lambda>(k, f). (k, stat_call f (n_time r))) sts"
    using Cons.prems by auto
  from Cons.IH Cons.prems obtain rs' where
    "finish_results sts rs = Inr rs'" "map n_timer rs' = map n_timer rs"
    "map n_time rs' = map n_time rs" "map n_total_time rs' = map n_total_time rs"
    "\<forall>r'\<in>set rs'. map (\<lambda>(k, v). (k, Inr v)) (n_stats r') =
              map (\<lambda>(k, f). (k, stat_call f (n_time r'))) sts"
    by auto
  then show ?case using st m by simp
qed

lemma run_try_ok:
  assumes w: "\<forall>i n k. \<exists>d. w i n k = Elapsed d"
    and r: "run_try w new repeat number time show_progress s = Some res"
    and rep: "1 \<le> repeat"
  shows "\<exists>number' new' s' ns. res = (None, number', new', s') \<and> 1 \<le> number' \<and>
           calls s' = calls s @
             concat (map (\<lambda>m. map (\<lambda>x. (t_id (n_timer x), m)) new) ns) @
             concat (replicate (nat repeat) (map (\<lambda>x. (t_id (n_timer x), number')) new)) \<and>
           (if number \<le> 0 then ns \<noteq> [] \<and> hd ns = 1 else ns = [] \<and> number' = number) \<and>
           map n_timer new' = map n_timer new \<and> map n_stats new' = map n_stats new \<and>
           map (\<lambda>x. length (n_time x)) new' = map (\<lambda>x. length (n_time x) + nat repeat) new"
proof -
  have "\<exists>number' ns s1. (if number \<le> 0 then estimate w (map n_timer new) time repeat 1 s
            else Some (Inr number, s)) = Some (Inr number', s1) \<and> 1 \<le> number' \<and>
            calls s1 = calls s @ concat (map (\<lambda>m. map (\<lambda>x. (t_id (n_timer x), m)) new) ns) \<and>
            (if number \<le> 0 then ns \<noteq> [] \<and> hd ns = 1 else ns = [] \<and> number' = number)"
  proof (cases "number \<le> 0")
    case True
    with r obtain y where y: "estimate w (map n_timer new) time repeat 1 s = Some y"
      by (auto simp: run_try_def split: option.splits)
    from estimate_ok [OF w y] obtain number' ns s1 where
      e: "y = (Inr number', s1)" "1 \<le> number'"
        "calls s1 = calls s @
           concat (map (\<lambda>m. map (\<lambda>tm. (t_id tm, m)) (map n_timer new)) (1 # ns))"
      by blast
    have "calls s1 = calls s @
        concat (map (\<lambda>m. map (\<lambda>x. (t_id (n_timer x), m)) new) (1 # ns))"
      using e(3) by (simp add: comp_def)
    then show ?thesis using True y e(1,2)
      by (intro exI [of _ number'] exI [of _ "1 # ns"] exI [of _ s1]) simp
  next
    case False
    then show ?thesis by (intro exI [of _ number] exI [of _ "[]"] exI [of _ s]) simp
  qed
  then obtain number' ns s1 where
    e: "(if number \<le> 0 then estimate w (map n_timer new) time repeat 1 s
            else Some (Inr number, s)) = Some (Inr number', s1)"
    and n: "1 \<le> number'"
    and c: "calls s1 = calls s @ concat (map (\<lambda>m. map (\<lambda>x. (t_id (n_timer x), m)) new) ns)"
    and ns: "if number \<le> 0 then ns \<noteq> [] \<and> hd ns = 1 else ns = [] \<and> number' = number"
    by blast
  let ?task = "length new * nat repeat"
  obtain p1 s2 where np: "next_progress ?task (if show_progress then Some 0 else None) s1 = (p1, s2)"
    by fastforce
  have c2: "calls s2 = calls s @ concat (map (\<lambda>m. map (\<lambda>x. (t_id (n_timer x), m)) new) ns)"
    using next_progress_calls [OF np] c by simp
  from measure_ok [OF w, of number' ?task "nat repeat" new p1 s2] obtain new' p' s' where
    m: "measure w number' ?task (nat repeat) new p1 s2 = (None, new', p', s')"
    and mr: "calls s' = calls s2 @ concat (replicate (nat repeat) (map (\<lambda>r. (t_id (n_timer r), number')) new))"
      "map n_timer new' = map n_timer new" "map n_stats new' = map n_stats new"
      "map (\<lambda>r. length (n_time r)) new' = map (\<lambda>r. length (n_time r) + nat repeat) new"
    by blast
  have "res = (None, number', new', s')"
    using r unfolding run_try_def e by (simp add: np m)
  moreover have "calls s' = calls s @
             concat (map (\<lambda>m. map (\<lambda>x. (t_id (n_timer x), m)) new) ns) @
             concat (replicate (nat repeat) (map (\<lambda>x. (t_id (n_timer x), number')) new))"
    using mr(1) c2 by simp
  ultimately show ?thesis using n ns mr(2,3,4) by blast
qed

lemma map_eq_imp_all:
  assumes "map f xs = map g ys" and "x \<in> set xs"
  shows "\<exists>y\<in>set ys. f x = g y"
proof -
  have "f x \<in> set (map g ys)" using assms by (metis image_eqI set_map)
  then show ?thesis by auto
qed

lemma map_zip_snd:
  "length ks = length xs \<Longrightarrow> map (\<lambda>(i, x). f x) (zip ks xs) = map f xs"
  by (induction ks xs rule: list_induct2) auto

lemma run_finish_ok:
  assumes d: "distinct (map fst (c_stats cmp))" and e: "\<forall>r\<in>set new. n_stats r = []"
    and l: "length new = length (c_timer cmp)"
  shows "\<exists>cmp' s'. run_finish cmp number new show_progress s = (None, cmp', s') \<and>
           calls s' = calls s \<and> c_number cmp' = number \<and> c_stats cmp' = c_stats cmp \<and>
           (\<forall>tm\<in>snd ` set (c_timer cmp'). \<exists>r\<in>set new.
              t_id tm = t_id (n_timer r) \<and> t_time tm = n_time r \<and>
              t_total_time tm = n_total_time r \<and>
              map (\<lambda>(k, v). (k, Inr v)) (t_stats tm) =
                map (\<lambda>(k, f). (k, stat_call f (t_time tm))) (c_stats cmp)) \<and>
           map (\<lambda>(i, tm). t_id tm) (c_timer cmp') = map (\<lambda>r. t_id (n_timer r)) new \<and>
           map fst (c_timer cmp') = map fst (c_timer cmp)"
proof -
  from finish_results_ok [OF d e] obtain new' where
    f: "finish_results (c_stats cmp) new = Inr new'"
    and m: "map n_timer new' = map n_timer new" "map n_time new' = map n_time new"
      "map n_total_time new' = map n_total_time new"
    and st: "\<forall>r'\<in>set new'. map (\<lambda>(k, v). (k, Inr v)) (n_stats r') =
              map (\<lambda>(k, f). (k, stat_call f (n_time r'))) (c_stats cmp)"
    by blast
  have len: "length new' = length new" using m(1) by (metis length_map)
  let ?s' = "if show_progress then s\<lparr>printed := printed s @ [PrintNewline]\<rparr> else s"
  let ?cmp' = "cmp\<lparr>c_timer := zip (map fst (c_timer cmp)) (map update_timer new'),
                  c_number := number\<rparr>"
  have r: "run_finish cmp number new show_progress s = (None, ?cmp', ?s')"
    by (simp add: run_finish_def f)
  have sndz: "snd ` set (c_timer ?cmp') = update_timer ` set new'"
  proof -
    have "map snd (zip (map fst (c_timer cmp)) (map update_timer new')) = map update_timer new'"
      using len l by simp
    then have "set (map snd (c_timer ?cmp')) = set (map update_timer new')" by simp
    then show ?thesis by simp
  qed
  have tms: "\<forall>tm\<in>snd ` set (c_timer ?cmp'). \<exists>r\<in>set new.
              t_id tm = t_id (n_timer r) \<and> t_time tm = n_time r \<and>
              t_total_time tm = n_total_time r \<and>
              map (\<lambda>(k, v). (k, Inr v)) (t_stats tm) =
                map (\<lambda>(k, f). (k, stat_call f (t_time tm))) (c_stats cmp)"
  proof
    fix tm assume "tm \<in> snd ` set (c_timer ?cmp')"
    then obtain r' where r': "r' \<in> set new'" and tm: "tm = update_timer r'"
      using sndz by auto
    have "map (\<lambda>r. (n_timer r, n_time r, n_total_time r)) new' =
          map (\<lambda>r. (n_timer r, n_time r, n_total_time r)) new"
      using m len by (simp add: list_eq_iff_nth_eq)
    from map_eq_imp_all [OF this r'] obtain r0 where
      r0: "r0 \<in> set new" "n_timer r' = n_timer r0" "n_time r' = n_time r0"
        "n_total_time r' = n_total_time r0"
      by auto
    have "map (\<lambda>(k, v). (k, Inr v)) (t_stats tm) =
                map (\<lambda>(k, f). (k, stat_call f (t_time tm))) (c_stats cmp)"
      using st r' by (simp add: tm update_timer_def)
    then show "\<exists>r\<in>set new.
              t_id tm = t_id (n_timer r) \<and> t_time tm = n_time r \<and>
              t_total_time tm = n_total_time r \<and>
              map (\<lambda>(k, v). (k, Inr v)) (t_stats tm) =
                map (\<lambda>(k, f). (k, stat_call f (t_time tm))) (c_stats cmp)"
      using r0 by (auto simp: tm update_timer_def)
  qed
  have ids: "map (\<lambda>(i, tm). t_id tm) (c_timer ?cmp') = map (\<lambda>r. t_id (n_timer r)) new"
  proof -
    have "map (\<lambda>(i, tm). t_id tm) (c_timer ?cmp') = map t_id (map update_timer new')"
      using map_zip_snd [of "map fst (c_timer cmp)" "map update_timer new'" t_id] len l by simp
    also have "\<dots> = map (\<lambda>r. t_id (n_timer r)) new'"
      by (simp add: update_timer_def)
    also have "\<dots> = map (\<lambda>r. t_id (n_timer r)) new"
      using m(1) len by (simp add: list_eq_iff_nth_eq)
    finally show ?thesis .
  qed
  have keys: "map fst (c_timer ?cmp') = map fst (c_timer cmp)"
    using len l by simp
  show ?thesis using r tms ids keys by auto
qed


lemma run_types:
  assumes "run w cmp repeat number time show_progress s = Some (None, cmp', s')"
  shows "isinstance_int repeat \<and> isinstance_int number \<and> isinstance_float_int time"
proof -
  have "isinstance_int repeat" using assms by (cases "isinstance_int repeat") (simp_all add: run_def)
  moreover have "isinstance_int number" using assms calculation
    by (cases "isinstance_int number") (simp_all add: run_def)
  moreover have "isinstance_float_int time" using assms calculation
    by (cases "isinstance_float_int time") (simp_all add: run_def)
  ultimately show ?thesis by simp
qed

lemma new_results_ids:
  "map (\<lambda>x. (t_id (n_timer x), m)) (new_results cmp) = map (\<lambda>(i, tm). (t_id tm, m)) (c_timer cmp)"
  by (simp add: new_results_def comp_def case_prod_unfold)

lemma run_checked_success:
  assumes w: "\<forall>i n k. \<exists>d. w i n k = Elapsed d"
    and run: "run_checked w cmp r number time show_progress s = Some (e, cmp', s')"
    and rep: "1 \<le> r"
    and d: "distinct (map fst (c_stats cmp))"
  shows "e = None \<and>
         map fst (c_timer cmp') = map fst (c_timer cmp) \<and>
         map (\<lambda>(i, tm). t_id tm) (c_timer cmp') = map (\<lambda>(i, tm). t_id tm) (c_timer cmp) \<and>
         c_stats cmp' = c_stats cmp \<and>
         (\<forall>tm\<in>snd ` set (c_timer cmp').
           length (t_time tm) = nat r \<and>
           map (\<lambda>(k, v). (k, Inr v)) (t_stats tm) =
             map (\<lambda>(k, f). (k, stat_call f (t_time tm))) (c_stats cmp')) \<and>
         (c_timer cmp \<noteq> [] \<longrightarrow>
            1 \<le> c_number cmp' \<and>
            (\<exists>ns. calls s' = calls s @
               concat (map (\<lambda>m. map (\<lambda>(i, tm). (t_id tm, m)) (c_timer cmp)) ns) @
               concat (replicate (nat r)
                 (map (\<lambda>(i, tm). (t_id tm, c_number cmp')) (c_timer cmp))) \<and>
               (if number \<le> 0 then ns \<noteq> [] \<and> hd ns = 1
                else ns = [] \<and> c_number cmp' = number)))"
proof (cases "c_timer cmp = []")
  case True
  have "cmp' = cmp \<and> e = None" using run True by (simp add: run_checked_def)
  then show ?thesis using True by simp
next
  case False
  let ?s0 = "if show_progress then s\<lparr>printed := printed s @ [PrintBanner]\<rparr> else s"
  obtain res where res: "run_try w (new_results cmp) r number time show_progress ?s0 = Some res"
    using run False
    by (cases "run_try w (new_results cmp) r number time show_progress ?s0")
       (simp_all add: run_checked_def)
  from run_try_ok [OF w res rep] obtain number' new' s1 ns where
    r: "res = (None, number', new', s1)" and n: "1 \<le> number'"
    and c: "calls s1 = calls ?s0 @
             concat (map (\<lambda>m. map (\<lambda>x. (t_id (n_timer x), m)) (new_results cmp)) ns) @
             concat (replicate (nat r) (map (\<lambda>x. (t_id (n_timer x), number')) (new_results cmp)))"
    and ns: "if number \<le> 0 then ns \<noteq> [] \<and> hd ns = 1 else ns = [] \<and> number' = number"
    and m: "map n_timer new' = map n_timer (new_results cmp)"
      "map n_stats new' = map n_stats (new_results cmp)"
      "map (\<lambda>x. length (n_time x)) new' = map (\<lambda>x. length (n_time x) + nat r) (new_results cmp)"
    by blast
  have fin: "run_finish cmp number' new' show_progress s1 = (e, cmp', s')"
    using run False by (simp add: run_checked_def res r)
  have len: "length new' = length (c_timer cmp)"
    using m(1) by (metis length_map new_results_def)
  have e: "\<forall>x\<in>set new'. n_stats x = []"
  proof
    fix x assume "x \<in> set new'"
    from map_eq_imp_all [OF m(2) this] show "n_stats x = []" by (auto simp: new_results_def)
  qed
  have lens: "\<forall>x\<in>set new'. length (n_time x) = nat r"
  proof
    fix x assume "x \<in> set new'"
    from map_eq_imp_all [OF m(3) this] show "length (n_time x) = nat r"
      by (auto simp: new_results_def)
  qed
  from run_finish_ok [OF d e len, of number' show_progress s1] fin
  have f: "calls s' = calls s1" "c_number cmp' = number'" "c_stats cmp' = c_stats cmp"
    "\<forall>tm\<in>snd ` set (c_timer cmp'). \<exists>x\<in>set new'.
              t_id tm = t_id (n_timer x) \<and> t_time tm = n_time x \<and>
              t_total_time tm = n_total_time x \<and>
              map (\<lambda>(k, v). (k, Inr v)) (t_stats tm) =
                map (\<lambda>(k, f). (k, stat_call f (t_time tm))) (c_stats cmp)"
    "map (\<lambda>(i, tm). t_id tm) (c_timer cmp') = map (\<lambda>x. t_id (n_timer x)) new'"
    "map fst (c_timer cmp') = map fst (c_timer cmp)"
    and en: "e = None"
    by auto
  have ids: "map (\<lambda>(i, tm). t_id tm) (c_timer cmp') = map (\<lambda>(i, tm). t_id tm) (c_timer cmp)"
  proof -
    have "map (\<lambda>x. t_id (n_timer x)) new' = map (\<lambda>x. t_id (n_timer x)) (new_results cmp)"
      using arg_cong [OF m(1), of "map t_id"] by (simp add: comp_def)
    with f(5) have "map (\<lambda>(i, tm). t_id tm) (c_timer cmp') =
        map (\<lambda>x. t_id (n_timer x)) (new_results cmp)" by simp
    then show ?thesis by (simp add: new_results_def comp_def case_prod_unfold)
  qed
  have 1: "\<forall>tm\<in>snd ` set (c_timer cmp').
           length (t_time tm) = nat r \<and>
           map (\<lambda>(k, v). (k, Inr v)) (t_stats tm) =
             map (\<lambda>(k, f). (k, stat_call f (t_time tm))) (c_stats cmp')"
  proof
    fix tm assume "tm \<in> snd ` set (c_timer cmp')"
    with f(4) obtain x where "x \<in> set new'" "t_time tm = n_time x"
      "map (\<lambda>(k, v). (k, Inr v)) (t_stats tm) =
                map (\<lambda>(k, f). (k, stat_call f (t_time tm))) (c_stats cmp)"
      by blast
    then show "length (t_time tm) = nat r \<and>
           map (\<lambda>(k, v). (k, Inr v)) (t_stats tm) =
             map (\<lambda>(k, f). (k, stat_call f (t_time tm))) (c_stats cmp')"
      using lens f(3) by simp
  qed
  have c0: "calls ?s0 = calls s" by simp
  have 2: "calls s' = calls s @
               concat (map (\<lambda>m. map (\<lambda>(i, tm). (t_id tm, m)) (c_timer cmp)) ns) @
               concat (replicate (nat r)
                 (map (\<lambda>(i, tm). (t_id tm, c_number cmp')) (c_timer cmp)))"
    unfolding f(1) f(2) c c0 new_results_ids ..
  have 3: "if number \<le> 0 then ns \<noteq> [] \<and> hd ns = 1 else ns = [] \<and> c_number cmp' = number"
    using ns f(2) by simp
  have "\<exists>ns. calls s' = calls s @
               concat (map (\<lambda>m. map (\<lambda>(i, tm). (t_id tm, m)) (c_timer cmp)) ns) @
               concat (replicate (nat r)
                 (map (\<lambda>(i, tm). (t_id tm, c_number cmp')) (c_timer cmp))) \<and>
               (if number \<le> 0 then ns \<noteq> [] \<and> hd ns = 1
                else ns = [] \<and> c_number cmp' = number)"
    using 2 3 by blast
  then show ?thesis using 1 n f(2,3,6) ids en by simp
qed

text \<open>
  C1. For every set of registered timers and every run with \<open>repeat = r\<close> (at least 1, as
  the data model requires) in which no timed call is interrupted or raises: when \<open>run\<close>
  returns, the object holds the same timers under the same ids and the same statistics
  as before, the duration sequence of every one of them has length exactly \<open>r\<close>, and its
  statistics are the registered functions evaluated on that final sequence. The timed
  calls of the run are the passes of the estimation over all timers (none when
  \<open>number\<close> is positive, else starting at one iteration), followed by \<open>r\<close> rounds over all
  timers in registration order, every one with the same iteration count, the stored
  \<open>_number\<close>, which is at least 1 and is \<open>number\<close> itself when that is positive.
\<close>

theorem run_success:
  assumes w: "\<forall>i n k. \<exists>d. w i n k = Elapsed d"
    and run: "run w cmp repeat number time show_progress s = Some (None, cmp', s')"
    and rep: "1 \<le> int_of repeat"
    and d: "distinct (map fst (c_stats cmp))"
  shows "map fst (c_timer cmp') = map fst (c_timer cmp) \<and>
         map (\<lambda>(i, tm). t_id tm) (c_timer cmp') = map (\<lambda>(i, tm). t_id tm) (c_timer cmp) \<and>
         c_stats cmp' = c_stats cmp \<and>
         (\<forall>tm\<in>snd ` set (c_timer cmp').
           length (t_time tm) = nat (int_of repeat) \<and>
           map (\<lambda>(k, v). (k, Inr v)) (t_stats tm) =
             map (\<lambda>(k, f). (k, stat_call f (t_time tm))) (c_stats cmp')) \<and>
         (c_timer cmp \<noteq> [] \<longrightarrow>
            1 \<le> c_number cmp' \<and>
            (\<exists>ns. calls s' = calls s @
               concat (map (\<lambda>m. map (\<lambda>(i, tm). (t_id tm, m)) (c_timer cmp)) ns) @
               concat (replicate (nat (int_of repeat))
                 (map (\<lambda>(i, tm). (t_id tm, c_number cmp')) (c_timer cmp))) \<and>
               (if int_of number \<le> 0 then ns \<noteq> [] \<and> hd ns = 1
                else ns = [] \<and> c_number cmp' = int_of number)))"
proof -
  have ty: "isinstance_int repeat \<and> isinstance_int number \<and> isinstance_float_int time"
    using run_types [OF run] .
  have rc: "run_checked w cmp (int_of repeat) (int_of number)
      (if real_of time < 0 then 0 else real_of time) show_progress s = Some (None, cmp', s')"
    using run ty rep by (simp add: run_def)
  from run_checked_success [OF w rc rep d] show ?thesis by simp
qed

theorem run_success_witness:
  "\<exists>cmp' s'. run (\<lambda>i n k. Elapsed (3 / 10)) two_timers (PInt 2) (PInt 0) (PFloat 1) False sys_init
       = Some (None, cmp', s') \<and>
     map fst (c_timer cmp') = [0, 1] \<and>
     list_all (\<lambda>tm. length (t_time tm) = 2 \<and>
        map (\<lambda>(k, v). (k, Inr v)) (t_stats tm) =
          map (\<lambda>(k, f). (k, stat_call f (t_time tm))) (c_stats cmp')) (map snd (c_timer cmp')) \<and>
     c_number cmp' = 1 \<and>
     calls s' = [(0, 1), (1, 1)] @ concat (replicate 2 [(0, 1), (1, 1)])"
proof -
  let ?w = "\<lambda>(i::nat) (n::int) (k::nat). Elapsed (3 / 10)"
  have "\<exists>cmp' s'. run ?w two_timers (PInt 2) (PInt 0) (PFloat 1) False sys_init
       = Some (None, cmp', s') \<and> c_number cmp' = 1 \<and>
       calls s' = [(0, 1), (1, 1), (0, 1), (1, 1), (0, 1), (1, 1)]"
    by (simp add: run_def run_checked_def new_results_def run_try_def estimate.simps timeit_def
        next_progress_def run_finish_def stat_call_def stat_mean_def update_timer_def
        py_round_def Let_def numeral_2_eq_2 two_timers_def unrun_timer_def sys_init_def)
  then obtain cmp' s' where
    ev: "run ?w two_timers (PInt 2) (PInt 0) (PFloat 1) False sys_init = Some (None, cmp', s')"
    and n: "c_number cmp' = 1"
    and c: "calls s' = [(0, 1), (1, 1), (0, 1), (1, 1), (0, 1), (1, 1)]"
    by blast
  have w: "\<forall>i n k. \<exists>d. ?w i n k = Elapsed d" by blast
  have rep: "1 \<le> int_of (PInt 2)" by simp
  have d: "distinct (map fst (c_stats two_timers))" by (simp add: two_timers_def)
  note th = run_success [OF w ev rep d]
  have k: "map fst (c_timer cmp') = [0, 1]"
    using th [THEN conjunct1] by (simp add: two_timers_def)
  have "\<forall>tm\<in>snd ` set (c_timer cmp').
           length (t_time tm) = nat (int_of (PInt 2)) \<and>
           map (\<lambda>(k, v). (k, Inr v)) (t_stats tm) =
             map (\<lambda>(k, f). (k, stat_call f (t_time tm))) (c_stats cmp')"
    using th by blast
  then have "list_all (\<lambda>tm. length (t_time tm) = 2 \<and>
        map (\<lambda>(k, v). (k, Inr v)) (t_stats tm) =
          map (\<lambda>(k, f). (k, stat_call f (t_time tm))) (c_stats cmp')) (map snd (c_timer cmp'))"
    by (simp add: list_all_iff)
  then show ?thesis using ev n c k by (auto simp: numeral_2_eq_2)
qed

section \<open>A run that fails\<close>

lemma compute_stats_Inr: "\<exists>st. compute_stats sts t acc = Inr st"
proof (induction sts arbitrary: acc)
  case Nil
  show ?case by simp
next
  case (Cons p sts)
  obtain k f where p: "p = (k, f)" by (cases p)
  obtain v where v: "stat_call f t = Inr v" using stat_call_Inr by blast
  from Cons.IH [of "AList.update k v acc"] show ?case by (simp add: p v)
qed

lemma finish_results_Inr: "\<exists>rs'. finish_results sts rs = Inr rs'"
proof (induction rs)
  case Nil
  show ?case by simp
next
  case (Cons r rs)
  obtain st where "compute_stats sts (n_time r) (n_stats r) = Inr st"
    using compute_stats_Inr by blast
  with Cons show ?case by auto
qed

lemma run_finish_returns: "\<exists>cmp' s'. run_finish cmp number new show_progress s = (None, cmp', s')"
proof -
  obtain new' where "finish_results (c_stats cmp) new = Inr new'"
    using finish_results_Inr by blast
  then show ?thesis by (simp add: run_finish_def)
qed

lemma run_checked_atomic:
  assumes "run_checked w cmp repeat number time show_progress s = Some (Some e, cmp', s')"
  shows "cmp' = cmp"
proof (cases "c_timer cmp = []")
  case True
  with assms show ?thesis by (simp add: run_checked_def)
next
  case False
  let ?s0 = "if show_progress then s\<lparr>printed := printed s @ [PrintBanner]\<rparr> else s"
  from assms False obtain x number' new' s1 where
    res: "run_try w (new_results cmp) repeat number time show_progress ?s0 = Some (x, number', new', s1)"
    by (cases "run_try w (new_results cmp) repeat number time show_progress ?s0")
       (auto simp: run_checked_def)
  show ?thesis
  proof (cases x)
    case None
    with assms False res have "run_finish cmp number' new' show_progress s1 = (Some e, cmp', s')"
      by (simp add: run_checked_def)
    with run_finish_returns [of cmp number' new' show_progress s1] show ?thesis by auto
  next
    case (Some e')
    show ?thesis
    proof (cases "e' \<noteq> KeyboardInterrupt \<or> c_catch_interrupt cmp = None")
      case True
      with assms False res Some show ?thesis by (simp add: run_checked_def)
    next
      case F: False
      with assms False res Some
      have "run_finish (cmp\<lparr>c_catch_interrupt := Some (Some e')\<rparr>) number' new' show_progress s1
              = (Some e, cmp', s')"
        by (auto simp: run_checked_def)
      with run_finish_returns [of "cmp\<lparr>c_catch_interrupt := Some (Some e')\<rparr>" number' new'
          show_progress s1]
      show ?thesis by auto
    qed
  qed
qed

text \<open>
  C10. \<open>Compare.run\<close> is atomic on failure: when an exception leaves \<open>run\<close> (a wrong
  argument type, an exception of a statement during estimation or measurement, or an
  interrupt that is not captured), the object is exactly as it was before the call: every
  timer with its durations, total time, statistics and cached result, and the stored
  iteration count.
\<close>

theorem run_atomic_on_failure:
  assumes "run w cmp repeat number time show_progress s = Some (Some e, cmp', s')"
  shows "cmp' = cmp \<and> c_timer cmp' = c_timer cmp \<and> c_number cmp' = c_number cmp"
proof -
  have "cmp' = cmp"
  proof (cases "isinstance_int repeat \<and> isinstance_int number \<and> isinstance_float_int time")
    case True
    with assms have "run_checked w cmp (if int_of repeat < 1 then 1 else int_of repeat)
        (int_of number) (if real_of time < 0 then 0 else real_of time) show_progress s
        = Some (Some e, cmp', s')"
      by (simp add: run_def)
    then show ?thesis by (rule run_checked_atomic)
  next
    case False
    with assms show ?thesis by (auto simp: run_def split: if_splits)
  qed
  then show ?thesis by simp
qed

theorem run_atomic_on_failure_witness:
  "(\<exists>s'. run (\<lambda>i n k. if k < 3 then Elapsed (3 / 10) else Fails) two_timers
       (PInt 2) (PInt 1) (PFloat 1) False sys_init = Some (Some StatementError, two_timers, s') \<and>
       length (calls s') = 4) \<and>
   (\<exists>s'. run (\<lambda>i n k. if k < 1 then Elapsed (1 / 10) else Interrupted) two_timers
       (PInt 2) (PInt 0) (PFloat 1) False sys_init = Some (Some KeyboardInterrupt, two_timers, s') \<and>
       length (calls s') = 2)"
proof -
  let ?w1 = "\<lambda>(i::nat) (n::int) (k::nat). if k < 3 then Elapsed (3 / 10) else Fails"
  let ?w2 = "\<lambda>(i::nat) (n::int) (k::nat). if k < 1 then Elapsed (1 / 10) else Interrupted"
  have "\<exists>cmp' s'. run ?w1 two_timers (PInt 2) (PInt 1) (PFloat 1) False sys_init
       = Some (Some StatementError, cmp', s') \<and> length (calls s') = 4"
    by (simp add: run_def run_checked_def new_results_def run_try_def timeit_def
        next_progress_def Let_def numeral_2_eq_2 two_timers_def unrun_timer_def sys_init_def)
  then obtain c1 s1 where 1: "run ?w1 two_timers (PInt 2) (PInt 1) (PFloat 1) False sys_init
       = Some (Some StatementError, c1, s1)" and l1: "length (calls s1) = 4" by blast
  have "\<exists>cmp' s'. run ?w2 two_timers (PInt 2) (PInt 0) (PFloat 1) False sys_init
       = Some (Some KeyboardInterrupt, cmp', s') \<and> length (calls s') = 2"
    by (simp add: run_def run_checked_def new_results_def run_try_def estimate.simps timeit_def
        next_progress_def Let_def numeral_2_eq_2 two_timers_def unrun_timer_def sys_init_def)
  then obtain c2 s2 where 2: "run ?w2 two_timers (PInt 2) (PInt 0) (PFloat 1) False sys_init
       = Some (Some KeyboardInterrupt, c2, s2)" and l2: "length (calls s2) = 2" by blast
  from run_atomic_on_failure [OF 1] run_atomic_on_failure [OF 2] 1 2 l1 l2
  show ?thesis by auto
qed

section \<open>The estimation of the iteration count\<close>

lemma next_n_growth:
  assumes n: "1 \<le> n" and t0: "0 \<le> t" and t1: "t \<le> 2 / 10"
  shows "n < next_n n t \<and> 5 * n < 4 * next_n n t"
proof (cases "t = 0")
  case True
  then show ?thesis using n by (simp add: next_n_def)
next
  case False
  then have tp: "0 < t" using t0 by simp
  define x where "x = real_of_int n * 0.25 / t"
  define a where "a = real_of_int n * t"
  have h: "a \<le> real_of_int n * (2 / 10)"
    unfolding a_def using t1 n by (intro mult_left_mono) simp_all
  have "(125 / 100) * a \<le> real_of_int n * (25 / 100)" using h by linarith
  then have "(125 / 100) * real_of_int n * t \<le> real_of_int n * (25 / 100)"
    by (simp only: a_def mult.assoc)
  then have "(125 / 100) * real_of_int n \<le> real_of_int n * (25 / 100) / t"
    using tp by (simp only: pos_le_divide_eq)
  then have x: "(125 / 100) * real_of_int n \<le> x" by (simp add: x_def)
  have xn: "0 \<le> x" using n tp by (simp add: x_def)
  have "py_int x = \<lfloor>x\<rfloor>" using xn by (simp add: py_int_def)
  then have nn: "next_n n t = \<lfloor>x\<rfloor> + 1" using False by (simp add: next_n_def x_def)
  have "x < real_of_int (\<lfloor>x\<rfloor> + 1)" by linarith
  then have "(125 / 100) * real_of_int n < real_of_int (next_n n t)"
    using x unfolding nn by linarith
  then have r: "5 * real_of_int n < 4 * real_of_int (next_n n t)" by linarith
  have "real_of_int (5 * n) < real_of_int (4 * next_n n t)" using r by simp
  then have 5: "5 * n < 4 * next_n n t" by (simp only: of_int_less_iff)
  then show ?thesis using n by linarith
qed

lemma estimate_at_least_1:
  assumes e: "estimate w tms time repeat n s = Some (Inr k, s')"
  shows "1 \<le> k"
proof -
  let ?P = "\<lambda>(w::world) (tms::timer list) (time::real) (repeat::int) (n::int) (s::sys)
              (y::(exn + int) \<times> sys). \<forall>k s'. y = (Inr k, s') \<longrightarrow> 1 \<le> k"
  have "?P w tms time repeat n s (Inr k, s')"
  proof (rule estimate.raw_induct [where P = ?P, OF _ e])
    fix est w tms time repeat n s y
    assume IH: "\<And>w tms time repeat n s y. est w tms time repeat n s = Some y \<Longrightarrow>
        ?P w tms time repeat n s y"
      and body: "(case estimate_pass w tms n 0 s of
          (Inl e, s') \<Rightarrow> Some (Inl e, s')
        | (Inr t, s') \<Rightarrow>
            if 2 / 10 < t
            then Some (Inr (max (py_round (real_of_int n * time / t / real_of_int repeat)) 1), s')
            else est w tms time repeat (next_n n t) s') = Some y"
    show "?P w tms time repeat n s y"
    proof (cases "estimate_pass w tms n 0 s")
      case (Pair r s1)
      show ?thesis
      proof (cases r)
        case (Inl e)
        with body Pair show ?thesis by auto
      next
        case (Inr t)
        show ?thesis
        proof (cases "2 / 10 < t")
          case True
          with body Pair Inr show ?thesis by auto
        next
          case False
          with body Pair Inr have "est w tms time repeat (next_n n t) s1 = Some y" by simp
          from IH [OF this] show ?thesis .
        qed
      qed
    qed
  qed
  then show ?thesis by simp
qed

text \<open>
  C2, as the code has it. When \<open>number\<close> is not positive the estimation starts from
  \<open>n = 1\<close> and the measurement goes on with the number it returns. A pass at \<open>n\<close> whose
  cumulative time \<open>t\<close> exceeds 0.2 s ends the loop with
  \<open>max(round(n * time / t / repeat), 1)\<close>; a pass that does not is followed by a pass at
  \<open>int(n * 0.25 / t) + 1\<close>, or at \<open>2 * n\<close> when \<open>t\<close> is zero. For \<open>n\<close> at least 1 the new
  count is more than 1.25 times the old one.
\<close>

theorem estimate_step:
  "(number \<le> 0 \<and> estimate w (map n_timer new) time repeat 1 s = Some (Inr number', s1) \<longrightarrow>
      run_try w new repeat number time show_progress s =
        run_try w new repeat number' time show_progress s1) \<and>
   (estimate_pass w tms n 0 s = (Inr t, s') \<and> 2 / 10 < t \<longrightarrow>
      estimate w tms time repeat n s =
        Some (Inr (max (py_round (real_of_int n * time / t / real_of_int repeat)) 1), s')) \<and>
   (estimate_pass w tms n 0 s = (Inr t, s') \<and> \<not> 2 / 10 < t \<longrightarrow>
      estimate w tms time repeat n s = estimate w tms time repeat (next_n n t) s') \<and>
   (0 < t \<and> 0 \<le> n \<longrightarrow> next_n n t = \<lfloor>real_of_int n * (25 / 100) / t\<rfloor> + 1) \<and>
   next_n n 0 = 2 * n \<and>
   (1 \<le> n \<and> 0 \<le> t \<and> t \<le> 2 / 10 \<longrightarrow> n < next_n n t \<and> 5 * n < 4 * next_n n t)"
proof (intro conjI impI)
  assume a: "number \<le> 0 \<and> estimate w (map n_timer new) time repeat 1 s = Some (Inr number', s1)"
  then have "1 \<le> number'" using estimate_at_least_1 by blast
  then show "run_try w new repeat number time show_progress s =
        run_try w new repeat number' time show_progress s1"
    using a by (simp add: run_try_def)
next
  assume "estimate_pass w tms n 0 s = (Inr t, s') \<and> 2 / 10 < t"
  then show "estimate w tms time repeat n s =
        Some (Inr (max (py_round (real_of_int n * time / t / real_of_int repeat)) 1), s')"
    by (subst estimate.simps) simp
next
  assume "estimate_pass w tms n 0 s = (Inr t, s') \<and> \<not> 2 / 10 < t"
  then show "estimate w tms time repeat n s = estimate w tms time repeat (next_n n t) s'"
    by (subst estimate.simps) simp
next
  assume "0 < t \<and> 0 \<le> n"
  then show "next_n n t = \<lfloor>real_of_int n * (25 / 100) / t\<rfloor> + 1"
    by (simp add: next_n_def py_int_def)
next
  show "next_n n 0 = 2 * n" by (simp add: next_n_def)
next
  assume "1 \<le> n \<and> 0 \<le> t \<and> t \<le> 2 / 10"
  then show "n < next_n n t" using next_n_growth by blast
next
  assume "1 \<le> n \<and> 0 \<le> t \<and> t \<le> 2 / 10"
  then show "5 * n < 4 * next_n n t" using next_n_growth by blast
qed

lemma next_n_examples: "next_n 1 (3 / 20) = 2" "next_n 2 (19 / 100) = 3"
  by (simp_all add: next_n_def py_int_def)

lemma calib_pass:
  "estimate_pass calib_world [unrun_timer 0] 1 0 sys_init = (Inr (15 / 100), \<lparr>calls = [(0, 1)], printed = []\<rparr>)"
  "estimate_pass calib_world [unrun_timer 0] 2 0 \<lparr>calls = [(0, 1)], printed = []\<rparr>
     = (Inr (19 / 100), \<lparr>calls = [(0, 1), (0, 2)], printed = []\<rparr>)"
  "estimate_pass calib_world [unrun_timer 0] 3 0 \<lparr>calls = [(0, 1), (0, 2)], printed = []\<rparr>
     = (Inr (3 / 10), \<lparr>calls = [(0, 1), (0, 2), (0, 3)], printed = []\<rparr>)"
  by (simp_all add: timeit_def unrun_timer_def sys_init_def calib_world_def)

lemma calib_estimate_3:
  "estimate calib_world [unrun_timer 0] 1 5 3 \<lparr>calls = [(0, 1), (0, 2)], printed = []\<rparr>
     = Some (Inr 2, \<lparr>calls = [(0, 1), (0, 2), (0, 3)], printed = []\<rparr>)"
  by (subst estimate.simps) (simp only: calib_pass, simp add: py_round_def)

lemma calib_estimate_2:
  "estimate calib_world [unrun_timer 0] 1 5 2 \<lparr>calls = [(0, 1)], printed = []\<rparr>
     = Some (Inr 2, \<lparr>calls = [(0, 1), (0, 2), (0, 3)], printed = []\<rparr>)"
  by (subst estimate.simps) (simp only: calib_pass, simp add: next_n_examples calib_estimate_3)

lemma calib_estimate_1:
  "estimate calib_world [unrun_timer 0] 1 5 1 sys_init
     = Some (Inr 2, \<lparr>calls = [(0, 1), (0, 2), (0, 3)], printed = []\<rparr>)"
  by (subst estimate.simps) (simp only: calib_pass, simp add: next_n_examples calib_estimate_2)

text \<open>
  The claim's "minimum doubling on every pass" fails: two iterations that take 0.19 s are
  followed by a pass of three iterations.
\<close>

theorem estimate_growth_counterexample:
  "next_n 2 (19 / 100) = 3 \<and> next_n 2 (19 / 100) < 2 * 2 \<and>
   (\<exists>s'. estimate calib_world [unrun_timer 0] 1 5 1 sys_init = Some (Inr 2, s') \<and>
          calls s' = [(0, 1), (0, 2), (0, 3)])"
  by (simp add: next_n_examples calib_estimate_1)

theorem estimate_step_witness:
  "run_try calib_world [new_entry (unrun_timer 0)] 5 0 1 False sys_init =
     run_try calib_world [new_entry (unrun_timer 0)] 5 2 1 False
       \<lparr>calls = [(0, 1), (0, 2), (0, 3)], printed = []\<rparr> \<and>
   estimate calib_world [unrun_timer 0] 1 5 2 \<lparr>calls = [(0, 1)], printed = []\<rparr> =
     estimate calib_world [unrun_timer 0] 1 5 (next_n 2 (19 / 100))
       \<lparr>calls = [(0, 1), (0, 2)], printed = []\<rparr> \<and>
   next_n 2 (19 / 100) = \<lfloor>real_of_int 2 * (25 / 100) / (19 / 100)\<rfloor> + 1 \<and>
   2 < next_n 2 (19 / 100) \<and> 5 * 2 < 4 * next_n 2 (19 / 100) \<and>
   estimate calib_world [unrun_timer 0] 1 5 3 \<lparr>calls = [(0, 1), (0, 2)], printed = []\<rparr> =
     Some (Inr (max (py_round (real_of_int 3 * 1 / (3 / 10) / real_of_int 5)) 1),
           \<lparr>calls = [(0, 1), (0, 2), (0, 3)], printed = []\<rparr>)"
proof -
  have h1: "(0::int) \<le> 0 \<and> estimate calib_world (map n_timer [new_entry (unrun_timer 0)]) 1 5 1 sys_init
      = Some (Inr 2, \<lparr>calls = [(0, 1), (0, 2), (0, 3)], printed = []\<rparr>)"
    by (simp add: new_entry_def calib_estimate_1)
  have h2: "estimate_pass calib_world [unrun_timer 0] 2 0 \<lparr>calls = [(0, 1)], printed = []\<rparr>
     = (Inr (19 / 100), \<lparr>calls = [(0, 1), (0, 2)], printed = []\<rparr>) \<and> \<not> 2 / 10 < (19 / 100 :: real)"
    by (rule conjI, rule calib_pass, simp)
  have h3: "estimate_pass calib_world [unrun_timer 0] 3 0 \<lparr>calls = [(0, 1), (0, 2)], printed = []\<rparr>
     = (Inr (3 / 10), \<lparr>calls = [(0, 1), (0, 2), (0, 3)], printed = []\<rparr>) \<and> 2 / 10 < (3 / 10 :: real)"
    by (rule conjI, rule calib_pass, simp)
  have h4: "(0::real) < 19 / 100 \<and> (0::int) \<le> 2" by simp
  have h5: "(1::int) \<le> 2 \<and> (0::real) \<le> 19 / 100 \<and> (19 / 100 :: real) \<le> 2 / 10" by simp
  note a = estimate_step [where number = 0 and w = calib_world and new = "[new_entry (unrun_timer 0)]"
      and time = 1 and repeat = 5 and s = sys_init and number' = 2
      and ?s1.0 = "\<lparr>calls = [(0, 1), (0, 2), (0, 3)], printed = []\<rparr>" and show_progress = False]
  note b = estimate_step [where w = calib_world and tms = "[unrun_timer 0]" and n = 2
      and t = "19 / 100" and s = "\<lparr>calls = [(0, 1)], printed = []\<rparr>"
      and s' = "\<lparr>calls = [(0, 1), (0, 2)], printed = []\<rparr>" and time = 1 and repeat = 5]
  note c = estimate_step [where w = calib_world and tms = "[unrun_timer 0]" and n = 3
      and t = "3 / 10" and s = "\<lparr>calls = [(0, 1), (0, 2)], printed = []\<rparr>"
      and s' = "\<lparr>calls = [(0, 1), (0, 2), (0, 3)], printed = []\<rparr>" and time = 1 and repeat = 5]
  have 1: "run_try calib_world [new_entry (unrun_timer 0)] 5 0 1 False sys_init =
     run_try calib_world [new_entry (unrun_timer 0)] 5 2 1 False
       \<lparr>calls = [(0, 1), (0, 2), (0, 3)], printed = []\<rparr>"
    using a h1 by blast
  have 2: "estimate calib_world [unrun_timer 0] 1 5 2 \<lparr>calls = [(0, 1)], printed = []\<rparr> =
     estimate calib_world [unrun_timer 0] 1 5 (next_n 2 (19 / 100))
       \<lparr>calls = [(0, 1), (0, 2)], printed = []\<rparr>"
    using b h2 by blast
  have 3: "next_n 2 (19 / 100) = \<lfloor>real_of_int 2 * (25 / 100) / (19 / 100)\<rfloor> + 1"
    using b h4 by blast
  have 4: "2 < next_n 2 (19 / 100) \<and> 5 * 2 < 4 * next_n 2 (19 / 100)"
    using b h5 by blast
  have 5: "estimate calib_world [unrun_timer 0] 1 5 3 \<lparr>calls = [(0, 1), (0, 2)], printed = []\<rparr> =
     Some (Inr (max (py_round (real_of_int 3 * 1 / (3 / 10) / real_of_int 5)) 1),
           \<lparr>calls = [(0, 1), (0, 2), (0, 3)], printed = []\<rparr>)"
    using c h3 by blast
  show ?thesis using 1 2 3 4 5 by blast
qed

section \<open>The arguments of run\<close>




section \<open>Inclusion and exclusion together\<close>

text \<open>
  C7. For every call of \<open>print_results\<close> that supplies both an inclusion set and an
  exclusion set of timer ids, \<open>ValueError\<close> is raised by the first check of the
  arguments: nothing is timed and nothing is printed, whatever the other arguments are.
\<close>

theorem include_and_exclude_rejected:
  "print_results_args cmp (Some inc) (Some exc) sort_by reverse stats percentage precision
     = Inl ValueError \<and>
   print_results cmp (Some inc) (Some exc) sort_by reverse stats percentage precision s
     = (Some ValueError, s)"
  by (simp add: print_results_def print_results_args_def)

theorem include_and_exclude_rejected_witness:
  "print_results two_timers (Some [0, 2]) (Some [0, 2]) (PStr ''mean'') False None None (PInt 2)
     sys_init = (Some ValueError, sys_init)"
  using include_and_exclude_rejected [of two_timers "[0, 2]" "[0, 2]" "PStr ''mean''" False None
      None "PInt 2" sys_init]
  by simp

section \<open>The percentage columns\<close>








section \<open>The order of the rows\<close>

lemma sorted_py_sort:
  "if reverse then sorted (rev (map key (py_sort key reverse xs)))
   else sorted (map key (py_sort key reverse xs))"
  by (simp add: py_sort_def rev_map [symmetric])

lemma mset_py_sort: "mset (py_sort key reverse xs) = mset xs"
  by (simp add: py_sort_def)

lemma include_timers_order:
  "include_timers tab inc = Inr tms \<Longrightarrow> map Some tms = map (map_of tab) inc"
proof (induction inc arbitrary: tms)
  case Nil
  then show ?case by simp
next
  case (Cons i inc)
  from Cons.prems obtain tm rest where "map_of tab i = Some tm"
    "include_timers tab inc = Inr rest" "tms = tm # rest"
    by (auto split: option.splits sum.splits)
  with Cons.IH show ?case by simp
qed

lemma print_results_args_selection:
  assumes "print_results_args cmp include exclude sort_by reverse stats percentage precision
             = Inr (timers, sb, rv, st, pc, pr)"
  shows "select_timers cmp include exclude = Inr timers \<and> rv = reverse"
  using assms
  by (auto simp: print_results_args_def Let_def split: sum.splits if_splits)

lemma print_results_core_printed:
  assumes "print_results_core cmp timers sort_by reverse stats percentage precision s = (None, s')"
  shows "s' = s\<lparr>printed := printed s @
        [PrintTable stats
           (map (\<lambda>tm. get_line tm stats percentage (max_value (sort_timers sort_by reverse timers))
                         (nat (int_of precision)))
              (sort_timers sort_by reverse timers))
           (c_number cmp) (sum_list (map t_total_time (sort_timers sort_by reverse timers)))]\<rparr>"
  using assms
  by (auto simp: print_results_core_def Let_def split: if_splits option.splits)

text \<open>
  C6, as the code has it. When the results are sorted by a statistic, the rows of the
  printed table are the selected timers that have a value for it, in ascending order of
  that value (descending with \<open>reverse\<close>), followed by the timers whose value is \<open>None\<close>,
  which keep the relative order they have in the selection. Without \<open>sort_by\<close> the
  selection is printed as it is. The selection is in registration order when no inclusion
  set is given (with or without an exclusion set); with an inclusion set it is in the
  order in which that set iterates.
\<close>

theorem unavailable_sorted_last:
  "(print_results_args cmp incl excl sort_by reverse stats percentage precision
      = Inr (timers, Some name, rv, st, pc, pr) \<longrightarrow>
      select_timers cmp incl excl = Inr timers \<and> rv = reverse \<and>
      print_results cmp incl excl sort_by reverse stats percentage precision s =
        print_results_core cmp timers (Some name) reverse st pc pr s) \<and>
   (print_results_core cmp timers (Some name) reverse st pc pr s = (None, s') \<longrightarrow>
      printed s' = printed s @
        [PrintTable st
           (map (\<lambda>tm. get_line tm st pc (max_value (sort_timers (Some name) reverse timers))
                         (nat (int_of pr)))
              (sort_timers (Some name) reverse timers))
           (c_number cmp)
           (sum_list (map t_total_time (sort_timers (Some name) reverse timers)))]) \<and>
   hd (get_line tm st pc maxv p) = CId (t_id tm) \<and>
   (\<exists>ds. sort_timers (Some name) reverse timers =
            ds @ filter (\<lambda>tm. stat_of tm name = PNone) timers \<and>
          mset ds = mset (filter (\<lambda>tm. stat_of tm name \<noteq> PNone) timers) \<and>
          (if reverse then sorted (rev (map (\<lambda>tm. real_of (stat_of tm name)) ds))
           else sorted (map (\<lambda>tm. real_of (stat_of tm name)) ds))) \<and>
   sort_timers None reverse timers = timers \<and>
   select_timers cmp None None = Inr (map snd (c_timer cmp)) \<and>
   select_timers cmp None (Some exc) =
     Inr (map snd (filter (\<lambda>(i, tm). i \<notin> set exc) (c_timer cmp))) \<and>
   (select_timers cmp (Some inc) None = Inr tms \<longrightarrow>
      map Some tms = map (map_of (c_timer cmp)) inc)"
proof -
  let ?key = "\<lambda>tm. real_of (stat_of tm name)"
  let ?ds = "py_sort ?key reverse (filter (\<lambda>tm. stat_of tm name \<noteq> PNone) timers)"
  have 0: "print_results_args cmp incl excl sort_by reverse stats percentage precision
      = Inr (timers, Some name, rv, st, pc, pr) \<longrightarrow>
      select_timers cmp incl excl = Inr timers \<and> rv = reverse \<and>
      print_results cmp incl excl sort_by reverse stats percentage precision s =
        print_results_core cmp timers (Some name) reverse st pc pr s"
  proof
    assume a: "print_results_args cmp incl excl sort_by reverse stats percentage precision
      = Inr (timers, Some name, rv, st, pc, pr)"
    from print_results_args_selection [OF a]
    have b: "select_timers cmp incl excl = Inr timers" "rv = reverse" by simp_all
    have "print_results cmp incl excl sort_by reverse stats percentage precision s =
        print_results_core cmp timers (Some name) reverse st pc pr s"
      using a b(2) by (simp add: print_results_def)
    with b show "select_timers cmp incl excl = Inr timers \<and> rv = reverse \<and>
      print_results cmp incl excl sort_by reverse stats percentage precision s =
        print_results_core cmp timers (Some name) reverse st pc pr s"
      by simp
  qed
  have 1: "print_results_core cmp timers (Some name) reverse st pc pr s = (None, s') \<longrightarrow>
      printed s' = printed s @
        [PrintTable st
           (map (\<lambda>tm. get_line tm st pc (max_value (sort_timers (Some name) reverse timers))
                         (nat (int_of pr)))
              (sort_timers (Some name) reverse timers))
           (c_number cmp)
           (sum_list (map t_total_time (sort_timers (Some name) reverse timers)))]"
  proof
    assume "print_results_core cmp timers (Some name) reverse st pc pr s = (None, s')"
    from print_results_core_printed [OF this] show "printed s' = printed s @
        [PrintTable st
           (map (\<lambda>tm. get_line tm st pc (max_value (sort_timers (Some name) reverse timers))
                         (nat (int_of pr)))
              (sort_timers (Some name) reverse timers))
           (c_number cmp)
           (sum_list (map t_total_time (sort_timers (Some name) reverse timers)))]"
      by simp
  qed
  have 2: "hd (get_line tm st pc maxv p) = CId (t_id tm)" by (simp add: get_line_def)
  have 3: "\<exists>ds. sort_timers (Some name) reverse timers =
            ds @ filter (\<lambda>tm. stat_of tm name = PNone) timers \<and>
          mset ds = mset (filter (\<lambda>tm. stat_of tm name \<noteq> PNone) timers) \<and>
          (if reverse then sorted (rev (map ?key ds)) else sorted (map ?key ds))"
  proof (intro exI [of _ ?ds] conjI)
    show "sort_timers (Some name) reverse timers =
      ?ds @ filter (\<lambda>tm. stat_of tm name = PNone) timers"
      by (simp add: sort_timers_def comp_def)
    show "mset ?ds = mset (filter (\<lambda>tm. stat_of tm name \<noteq> PNone) timers)"
      by (rule mset_py_sort)
    show "if reverse then sorted (rev (map ?key ?ds)) else sorted (map ?key ?ds)"
      by (rule sorted_py_sort)
  qed
  have 4: "sort_timers None reverse timers = timers" by (simp add: sort_timers_def)
  have 5: "select_timers cmp None None = Inr (map snd (c_timer cmp))"
    "select_timers cmp None (Some exc) =
       Inr (map snd (filter (\<lambda>(i, tm). i \<notin> set exc) (c_timer cmp)))"
    by (simp_all add: select_timers_def)
  have 6: "select_timers cmp (Some inc) None = Inr tms \<longrightarrow>
      map Some tms = map (map_of (c_timer cmp)) inc"
    using include_timers_order [of "c_timer cmp" inc tms] by (simp add: select_timers_def)
  show ?thesis using 0 1 2 3 4 5 6 by blast
qed

lemma check_stat_std: "check_stat (PStr ''std'') = Inr ''std''"
  by code_simp

lemma two_of_nine_args:
  "print_results_args two_of_nine (Some [8, 1]) None (PStr ''std'') False (Some [PStr ''std''])
     None (PInt 2)
   = Inr ([run_once_timer 8, run_once_timer 1], Some ''std'', False, [''std''], [''std''], PInt 2)"
  by (simp add: print_results_args_def select_timers_def check_stat_select_def check_stat_std
      DEFAULT_STATS_def Let_def two_of_nine_def del: check_stat.simps)

lemma two_of_nine_core:
  "print_results_core two_of_nine [run_once_timer 8, run_once_timer 1] (Some ''std'') False
     [''std''] [''std''] (PInt 2) sys_init
   = (None, \<lparr>calls = [], printed =
        [PrintTable [''std'']
           [[CId 8, CRepeat 1, CNull, CNull, CNull], [CId 1, CRepeat 1, CNull, CNull, CNull]]
           1 (2 / 10)]\<rparr>)"
  by (simp add: print_results_core_def sort_timers_def py_sort_def stat_of_def get_line_def
      stat_cells_def run_once_timer_def two_of_nine_def sys_init_def Let_def)

text \<open>
  The registration order of the claim fails with an inclusion set: \<open>list({1, 8})\<close> is
  \<open>[8, 1]\<close>, so of two timers without a standard deviation the one registered later is
  printed first.
\<close>

theorem unavailable_order_counterexample:
  "map fst (c_timer two_of_nine) = [1, 8] \<and>
   print_results two_of_nine (Some [8, 1]) None (PStr ''std'') False (Some [PStr ''std'']) None
     (PInt 2) sys_init
   = (None, \<lparr>calls = [], printed =
        [PrintTable [''std'']
           [[CId 8, CRepeat 1, CNull, CNull, CNull], [CId 1, CRepeat 1, CNull, CNull, CNull]]
           1 (2 / 10)]\<rparr>)"
proof -
  have "map fst (c_timer two_of_nine) = [1, 8]" by (simp add: two_of_nine_def)
  moreover have "print_results two_of_nine (Some [8, 1]) None (PStr ''std'') False
      (Some [PStr ''std'']) None (PInt 2) sys_init
    = print_results_core two_of_nine [run_once_timer 8, run_once_timer 1] (Some ''std'') False
        [''std''] [''std''] (PInt 2) sys_init"
    by (simp only: print_results_def two_of_nine_args sum.case prod.case)
  ultimately show ?thesis by (simp only: two_of_nine_core)
qed


theorem unavailable_sorted_last_witness:
  "select_timers two_of_nine (Some [8, 1]) None = Inr [run_once_timer 8, run_once_timer 1] \<and>
   print_results two_of_nine (Some [8, 1]) None (PStr ''std'') False (Some [PStr ''std'']) None
     (PInt 2) sys_init
     = print_results_core two_of_nine [run_once_timer 8, run_once_timer 1] (Some ''std'') False
         [''std''] [''std''] (PInt 2) sys_init \<and>
   [PrintTable [''std'']
      [[CId 8, CRepeat 1, CNull, CNull, CNull], [CId 1, CRepeat 1, CNull, CNull, CNull]]
      1 (2 / 10)]
     = [PrintTable [''std'']
         (map (\<lambda>tm. get_line tm [''std''] [''std'']
                       (max_value (sort_timers (Some ''std'') False
                          [run_once_timer 8, run_once_timer 1])) (nat (int_of (PInt 2))))
            (sort_timers (Some ''std'') False [run_once_timer 8, run_once_timer 1]))
         (c_number two_of_nine)
         (sum_list (map t_total_time
            (sort_timers (Some ''std'') False [run_once_timer 8, run_once_timer 1])))] \<and>
   map Some [run_once_timer 8, run_once_timer 1] = map (map_of (c_timer two_of_nine)) [8, 1] \<and>
   (\<exists>ds. sort_timers (Some ''std'') False
           [stat_timer 0 ''std'' PNone, stat_timer 2 ''std'' (PFloat 5),
            stat_timer 3 ''std'' (PFloat 4), stat_timer 4 ''std'' PNone]
         = ds @ [stat_timer 0 ''std'' PNone, stat_timer 4 ''std'' PNone] \<and>
         sorted (map (\<lambda>tm. real_of (stat_of tm ''std'')) ds)) \<and>
   sort_timers (Some ''std'') False
     [stat_timer 0 ''std'' PNone, stat_timer 2 ''std'' (PFloat 5), stat_timer 3 ''std'' (PFloat 4),
      stat_timer 4 ''std'' PNone]
     = [stat_timer 3 ''std'' (PFloat 4), stat_timer 2 ''std'' (PFloat 5),
        stat_timer 0 ''std'' PNone, stat_timer 4 ''std'' PNone] \<and>
   sort_timers (Some ''std'') True
     [stat_timer 0 ''std'' PNone, stat_timer 2 ''std'' (PFloat 5), stat_timer 3 ''std'' (PFloat 4),
      stat_timer 4 ''std'' PNone]
     = [stat_timer 2 ''std'' (PFloat 5), stat_timer 3 ''std'' (PFloat 4),
        stat_timer 0 ''std'' PNone, stat_timer 4 ''std'' PNone]"
proof -
  let ?ts = "[stat_timer 0 ''std'' PNone, stat_timer 2 ''std'' (PFloat 5),
              stat_timer 3 ''std'' (PFloat 4), stat_timer 4 ''std'' PNone]"
  let ?sel = "[run_once_timer 8, run_once_timer 1]"
  let ?s' = "\<lparr>calls = [], printed =
        [PrintTable [''std'']
           [[CId 8, CRepeat 1, CNull, CNull, CNull], [CId 1, CRepeat 1, CNull, CNull, CNull]]
           1 (2 / 10)]\<rparr>"
  note a = unavailable_sorted_last [where cmp = two_of_nine and incl = "Some [8, 1]"
      and excl = None and sort_by = "PStr ''std''" and reverse = False
      and stats = "Some [PStr ''std'']" and percentage = None and precision = "PInt 2"
      and timers = ?sel and name = "''std''" and rv = False and st = "[''std'']"
      and pc = "[''std'']" and pr = "PInt 2" and s = sys_init and s' = ?s'
      and inc = "[8, 1]" and tms = ?sel]
  note b = unavailable_sorted_last [where reverse = False and timers = ?ts and name = "''std''"]
  have sel: "select_timers two_of_nine (Some [8, 1]) None = Inr ?sel"
    using a [THEN conjunct1, THEN mp, OF two_of_nine_args] by simp
  have pr: "print_results two_of_nine (Some [8, 1]) None (PStr ''std'') False
      (Some [PStr ''std'']) None (PInt 2) sys_init
     = print_results_core two_of_nine ?sel (Some ''std'') False [''std''] [''std''] (PInt 2) sys_init"
    using a [THEN conjunct1, THEN mp, OF two_of_nine_args] by simp
  have tb: "printed ?s' = printed sys_init @ [PrintTable [''std'']
         (map (\<lambda>tm. get_line tm [''std''] [''std'']
                       (max_value (sort_timers (Some ''std'') False ?sel)) (nat (int_of (PInt 2))))
            (sort_timers (Some ''std'') False ?sel))
         (c_number two_of_nine)
         (sum_list (map t_total_time (sort_timers (Some ''std'') False ?sel)))]"
    using a [THEN conjunct2, THEN conjunct1, THEN mp, OF two_of_nine_core] .
  have tb': "[PrintTable [''std'']
      [[CId 8, CRepeat 1, CNull, CNull, CNull], [CId 1, CRepeat 1, CNull, CNull, CNull]]
      1 (2 / 10)]
     = [PrintTable [''std'']
         (map (\<lambda>tm. get_line tm [''std''] [''std'']
                       (max_value (sort_timers (Some ''std'') False ?sel)) (nat (int_of (PInt 2))))
            (sort_timers (Some ''std'') False ?sel))
         (c_number two_of_nine)
         (sum_list (map t_total_time (sort_timers (Some ''std'') False ?sel)))]"
    using tb by (simp add: sys_init_def)
  have inc: "map Some ?sel = map (map_of (c_timer two_of_nine)) [8, 1]"
    using a [THEN conjunct2, THEN conjunct2, THEN conjunct2, THEN conjunct2, THEN conjunct2,
        THEN conjunct2, THEN conjunct2, THEN mp, OF sel] .
  have f: "filter (\<lambda>tm. stat_of tm ''std'' = PNone) ?ts =
      [stat_timer 0 ''std'' PNone, stat_timer 4 ''std'' PNone]"
    by (simp add: stat_of_def stat_timer_def)
  have ex: "\<exists>ds. sort_timers (Some ''std'') False ?ts
         = ds @ [stat_timer 0 ''std'' PNone, stat_timer 4 ''std'' PNone] \<and>
         sorted (map (\<lambda>tm. real_of (stat_of tm ''std'')) ds)"
    using b [THEN conjunct2, THEN conjunct2, THEN conjunct2, THEN conjunct1] unfolding f
    by auto
  have up: "sort_timers (Some ''std'') False ?ts
     = [stat_timer 3 ''std'' (PFloat 4), stat_timer 2 ''std'' (PFloat 5),
        stat_timer 0 ''std'' PNone, stat_timer 4 ''std'' PNone]"
    by (simp add: sort_timers_def py_sort_def stat_of_def stat_timer_def)
  have down: "sort_timers (Some ''std'') True ?ts
     = [stat_timer 2 ''std'' (PFloat 5), stat_timer 3 ''std'' (PFloat 4),
        stat_timer 0 ''std'' PNone, stat_timer 4 ''std'' PNone]"
    by (simp add: sort_timers_def py_sort_def stat_of_def stat_timer_def)
  show ?thesis using sel pr tb' inc ex up down by blast
qed

section \<open>An interrupt during compare\<close>




































end
